theory Spec2Isabelle
  imports Main "HOL-Library.Word"
begin

section \<open>Go values\<close>

text \<open>
  Go strings are byte sequences, so they are \<^typ>\<open>string\<close> here. A pointer to a value
  (\<^verbatim>\<open>*string\<close>, \<^verbatim>\<open>*int32\<close>, \<^verbatim>\<open>*bool\<close>) is an \<^typ>\<open>'a option\<close>, with
  \<^term>\<open>None\<close> for \<^verbatim>\<open>nil\<close>; \<^verbatim>\<open>aws.String(s)\<close> is \<^term>\<open>Some s\<close>. A \<^verbatim>\<open>time.Time\<close> is
  an integer instant, the zero value \<^verbatim>\<open>time.Time{}\<close> being \<open>0\<close>; a \<^verbatim>\<open>time.Duration\<close>
  and an \<^verbatim>\<open>int64\<close> are 64-bit words read as signed. The environment read by
  \<^verbatim>\<open>os.Getenv\<close> is a function from variable names to values, an unset variable being
  the empty string.
\<close>

type_synonym gotime = int
type_synonym int64 = "64 word"
type_synonym int32 = "32 word"
type_synonym environ = "string \<Rightarrow> string"

definition zero_time :: gotime where
  "zero_time = 0"

text \<open>\<^verbatim>\<open>lower\<close> (simplestorage/client.go): the value pointed to, or the default for \<^verbatim>\<open>nil\<close>.\<close>

fun lower :: "'a option \<Rightarrow> 'a \<Rightarrow> 'a" where
  "lower (Some v) defaultVal = v"
| "lower None defaultVal = defaultVal"

text \<open>
  \<^verbatim>\<open>raise\<close> (simplestorage/client.go): \<^verbatim>\<open>nil\<close> for the zero value of the type, a pointer
  to the value otherwise. The zero value \<^verbatim>\<open>var zero T\<close> of the instantiating type is the
  first argument: \<open>''''\<close> for \<^verbatim>\<open>string\<close>, \<open>0\<close> for \<^verbatim>\<open>int64\<close>.
\<close>

definition raise :: "'a \<Rightarrow> 'a \<Rightarrow> 'a option" where
  "raise zero v = (if v = zero then None else Some v)"

section \<open>Errors\<close>

text \<open>
  The package-level error variables of simplestorage. Each is one \<^verbatim>\<open>errors.New\<close> value,
  which callers compare by identity (\<^verbatim>\<open>errors.Is\<close>).
\<close>

datatype sentinel = ErrNoBucketName | ErrBucketNotFound | ErrBucketNotEmpty | ErrSnapshotRequired

text \<open>
  An error of the backing SDK (an API error or a transport failure), carrying its text.
  The SDK is a separate module: none of its error values is one of the sentinels above.
\<close>

datatype sdk_error = SDKError string

text \<open>
  Error values as the code builds them:
  \<^item> \<open>Sentinel\<close>: one of the package-level variables;
  \<^item> \<open>ErrorsNew\<close>: a fresh \<^verbatim>\<open>errors.New(msg)\<close> or \<^verbatim>\<open>fmt.Errorf(msg)\<close> made at the call site;
  \<^item> \<open>Errorf_w\<close>: \<^verbatim>\<open>fmt.Errorf(prefix + "%w", err)\<close>, which \<^verbatim>\<open>Unwrap\<close>s to \<open>err\<close>;
  \<^item> \<open>Errorf_v\<close>: \<^verbatim>\<open>fmt.Errorf(prefix + "%v", err)\<close>, which keeps only the text of \<open>err\<close>;
  \<^item> \<open>Join\<close>: \<^verbatim>\<open>errors.Join(errs...)\<close>;
  \<^item> \<open>FromSDK\<close>: an error returned by the backing SDK;
  \<^item> \<open>UnsupportedMethod\<close>, \<open>InvalidExpiry\<close>: the two formatted validation errors of
    \<^verbatim>\<open>PresignURL\<close>, with the value each message prints.
\<close>

datatype goerror =
    Sentinel sentinel
  | ErrorsNew string
  | Errorf_w string goerror
  | Errorf_v string goerror
  | Join "goerror list"
  | FromSDK sdk_error
  | UnsupportedMethod string
  | InvalidExpiry int64

text \<open>
  \<^verbatim>\<open>errors.Is(err, target)\<close> for a sentinel target: identity, or a match further down the
  chain that \<^verbatim>\<open>Unwrap\<close> exposes (one error for \<^verbatim>\<open>%w\<close>, every member for a join).
\<close>

fun errors_Is :: "goerror \<Rightarrow> sentinel \<Rightarrow> bool" where
  "errors_Is (Sentinel s) target = (s = target)"
| "errors_Is (ErrorsNew msg) target = False"
| "errors_Is (Errorf_w prefix err) target = errors_Is err target"
| "errors_Is (Errorf_v prefix err) target = False"
| "errors_Is (Join errs) target = list_ex (\<lambda>err. errors_Is err target) errs"
| "errors_Is (FromSDK e) target = False"
| "errors_Is (UnsupportedMethod m) target = False"
| "errors_Is (InvalidExpiry d) target = False"

text \<open>
  What a call of the library does: it returns a value, returns an error, or panics (a
  \<^verbatim>\<open>nil\<close> pointer dereference).
\<close>

datatype 'a outcome = Return 'a | Fail goerror | Panic

section \<open>The backing SDK\<close>

text \<open>
  \<^verbatim>\<open>s3.Options\<close>, with the fields this library writes. \<open>APIOptions\<close> holds the
  \<^verbatim>\<open>http.AddHeaderValue(key, value)\<close> middlewares in the order they were appended, each
  as its key and value.
\<close>

datatype credentials = StaticCredentialsProvider string string string | DefaultChain

record s3_Options =
  s3_BaseEndpoint :: "string option"
  s3_Region :: string
  s3_UsePathStyle :: bool
  s3_Credentials :: "credentials option"
  APIOptions :: "(string \<times> string) list"

type_synonym s3_option = "s3_Options \<Rightarrow> s3_Options"

text \<open>\<^verbatim>\<open>aws.Config\<close> as \<^verbatim>\<open>awsConfig.LoadDefaultConfig(ctx)\<close> returns it.\<close>

record aws_Config =
  cfg_Region :: string
  cfg_Credentials :: "credentials option"

text \<open>
  \<^verbatim>\<open>for _, doer := range options { doer(&o) }\<close>: the loop every constructor and every
  call of the library runs over its option functions (\<open>doers\<close> below, whatever the
  parameter is called in the source). An option function mutates the struct it points
  to; here it returns the updated struct.
\<close>

fun apply_options :: "'o \<Rightarrow> ('o \<Rightarrow> 'o) list \<Rightarrow> 'o" where
  "apply_options o' [] = o'"
| "apply_options o' (doer # rest) = apply_options (doer o') rest"

text \<open>
  The inputs and outputs of the SDK calls the library issues, with the fields it reads or
  writes. An \<^verbatim>\<open>io.Reader\<close> body is the bytes it yields (\<^verbatim>\<open>nil\<close> is \<^term>\<open>None\<close>); a
  \<^verbatim>\<open>map[string]string\<close> is a map.
\<close>

record PutObjectInput =
  Bucket :: "string option"
  Key :: "string option"
  Body :: "string option"
  ContentType :: "string option"
  ContentLength :: "int64 option"
  ContentDisposition :: "string option"

record PutObjectOutput =
  ETag :: "string option"
  VersionId :: "string option"

record GetObjectOutput =
  ContentType :: "string option"
  ETag :: "string option"
  ContentLength :: "int64 option"
  VersionId :: "string option"
  LastModified :: "gotime option"
  Metadata :: "string \<rightharpoonup> string"
  Body :: "string option"

record HeadObjectOutput =
  ContentType :: "string option"
  ContentDisposition :: "string option"
  ETag :: "string option"
  ContentLength :: "int64 option"
  VersionId :: "string option"
  LastModified :: "gotime option"
  Metadata :: "string \<rightharpoonup> string"

record ListObjectsV2Input =
  Bucket :: "string option"
  Delimiter :: "string option"
  Prefix :: "string option"
  MaxKeys :: "int32 option"
  ContinuationToken :: "string option"
  StartAfter :: "string option"

record types_Object =
  Key :: "string option"
  ETag :: "string option"
  Size :: "int64 option"
  LastModified :: "gotime option"

record ListObjectsV2Output =
  Contents :: "types_Object list"
  IsTruncated :: "bool option"
  NextContinuationToken :: "string option"

record types_Bucket =
  Name :: "string option"
  CreationDate :: "gotime option"

record ListBucketsOutput =
  Buckets :: "types_Bucket list"
  ContinuationToken :: "string option"

text \<open>
  \<^verbatim>\<open>http.Header\<close> is a \<^verbatim>\<open>map[string][]string\<close>; \<^verbatim>\<open>Header.Get\<close> returns the first value
  stored under the key, or the empty string. The keys the library asks for are already
  in canonical form.
\<close>

type_synonym http_Header = "string \<rightharpoonup> string list"

definition Header_Get :: "http_Header \<Rightarrow> string \<Rightarrow> string" where
  "Header_Get h key = (case h key of None \<Rightarrow> '''' | Some [] \<Rightarrow> '''' | Some (v # vs) \<Rightarrow> v)"

text \<open>
  \<^verbatim>\<open>s3.HeadBucketOutput\<close>: of its \<open>ResultMetadata\<close> the library reads only the raw
  response. The SDK stores there the response of its own transport, a
  \<^verbatim>\<open>*smithyhttp.Response\<close> (package \<^verbatim>\<open>github.com/aws/smithy-go/transport/http\<close>, a struct
  embedding net/http's \<^verbatim>\<open>*http.Response\<close>); the model keeps its header, or \<^term>\<open>None\<close> when
  no raw response was stored.
\<close>

type_synonym smithyhttp_Response = http_Header

record HeadBucketOutput =
  RawResponse :: "smithyhttp_Response option"

text \<open>
  \<^verbatim>\<open>middleware.GetRawResponse\<close> returns the stored response as an \<^verbatim>\<open>interface{}\<close>. The
  dynamic types that matter are nil, the SDK's \<^verbatim>\<open>*smithyhttp.Response\<close> and net/http's
  \<^verbatim>\<open>*http.Response\<close>; \<open>as_nethttp_Response\<close> is the type assertion
  \<^verbatim>\<open>v.(*http.Response)\<close> with \<^verbatim>\<open>http\<close> the package \<^verbatim>\<open>net/http\<close>, as \<^verbatim>\<open>client.go\<close> imports
  it: it succeeds on that dynamic type only.
\<close>

datatype raw_response =
    Raw_nil
  | Smithy_Response smithyhttp_Response
  | NetHTTP_Response http_Header

definition GetRawResponse :: "HeadBucketOutput \<Rightarrow> raw_response" where
  "GetRawResponse resp = (case RawResponse resp of None \<Rightarrow> Raw_nil | Some header \<Rightarrow> Smithy_Response header)"

fun as_nethttp_Response :: "raw_response \<Rightarrow> http_Header option" where
  "as_nethttp_Response (NetHTTP_Response header) = Some header"
| "as_nethttp_Response (Smithy_Response header) = None"
| "as_nethttp_Response Raw_nil = None"

text \<open>
  One SDK call, as it leaves the library: the input struct and the \<^verbatim>\<open>s3.Options\<close> the call
  runs with (the client's options, changed by the per-call option functions in order).
  Inputs of one or two fields are the constructor's arguments: \<open>Bucket\<close>, then \<open>Key\<close>;
  the presign calls carry bucket, key, the two optional PUT headers and the expiry.
\<close>

datatype call =
    LoadDefaultConfig
  | S3_GetObject "string option" "string option" s3_Options
  | S3_HeadObject "string option" "string option" s3_Options
  | S3_PutObject PutObjectInput s3_Options
  | S3_DeleteObject "string option" "string option" s3_Options
  | S3_ListObjectsV2 ListObjectsV2Input s3_Options
  | S3_CreateBucket "string option" s3_Options
  | S3_DeleteBucket "string option" s3_Options
  | S3_ListBuckets "string option" s3_Options
  | S3_HeadBucket "string option" s3_Options
  | S3_PresignGetObject "string option" "string option" int64 s3_Options
  | S3_PresignPutObject "string option" "string option" "string option" "string option" int64 s3_Options
  | S3_PresignDeleteObject "string option" "string option" int64 s3_Options

text \<open>
  The backing SDK and the service behind it: what each call answers, given the calls made
  before it. Nothing is assumed of the answers.
\<close>

record sdk =
  sdk_LoadDefaultConfig :: "call list \<Rightarrow> sdk_error + aws_Config"
  sdk_GetObject :: "call list \<Rightarrow> call \<Rightarrow> sdk_error + GetObjectOutput"
  sdk_HeadObject :: "call list \<Rightarrow> call \<Rightarrow> sdk_error + HeadObjectOutput"
  sdk_PutObject :: "call list \<Rightarrow> call \<Rightarrow> sdk_error + PutObjectOutput"
  sdk_DeleteObject :: "call list \<Rightarrow> call \<Rightarrow> sdk_error + unit"
  sdk_ListObjectsV2 :: "call list \<Rightarrow> call \<Rightarrow> sdk_error + ListObjectsV2Output"
  sdk_CreateBucket :: "call list \<Rightarrow> call \<Rightarrow> sdk_error + unit"
  sdk_DeleteBucket :: "call list \<Rightarrow> call \<Rightarrow> sdk_error + unit"
  sdk_ListBuckets :: "call list \<Rightarrow> call \<Rightarrow> sdk_error + ListBucketsOutput"
  sdk_HeadBucket :: "call list \<Rightarrow> call \<Rightarrow> sdk_error + HeadBucketOutput"
  sdk_Presign :: "call list \<Rightarrow> call \<Rightarrow> sdk_error + string"

text \<open>
  \<^verbatim>\<open>s3.NewFromConfig(cfg, fn)\<close>: the options start from the loaded configuration and \<open>fn\<close>
  changes them.
\<close>

definition s3_NewFromConfig :: "aws_Config \<Rightarrow> s3_option \<Rightarrow> s3_Options" where
  "s3_NewFromConfig cfg fn =
     fn \<lparr>s3_BaseEndpoint = None, s3_Region = cfg_Region cfg, s3_UsePathStyle = False,
         s3_Credentials = cfg_Credentials cfg, APIOptions = []\<rparr>"

section \<open>Package storage (storage.go)\<close>

definition GlobalEndpoint :: string where
  "GlobalEndpoint = ''https://t3.storage.dev''"

definition FlyEndpoint :: string where
  "FlyEndpoint = ''https://fly.storage.tigris.dev''"

record storage_Options =
  BaseEndpoint :: string
  Region :: string
  UsePathStyle :: bool
  AccessKeyID :: string
  SecretAccessKey :: string

type_synonym storage_Option = "storage_Options \<Rightarrow> storage_Options"

definition storage_Options_defaults :: "environ \<Rightarrow> storage_Options" where
  "storage_Options_defaults env =
     \<lparr>storage_Options.BaseEndpoint = ''https://t3.storage.dev'',
      storage_Options.Region = ''auto'',
      storage_Options.UsePathStyle = False,
      storage_Options.AccessKeyID = env ''TIGRIS_STORAGE_ACCESS_KEY_ID'',
      storage_Options.SecretAccessKey = env ''TIGRIS_STORAGE_SECRET_ACCESS_KEY''\<rparr>"

definition storage_WithFlyEndpoint :: storage_Option where
  "storage_WithFlyEndpoint = (\<lambda>o'. o'\<lparr>storage_Options.BaseEndpoint := FlyEndpoint\<rparr>)"

definition storage_WithGlobalEndpoint :: storage_Option where
  "storage_WithGlobalEndpoint = (\<lambda>o'. o'\<lparr>storage_Options.BaseEndpoint := GlobalEndpoint\<rparr>)"

definition storage_WithEndpoint :: "string \<Rightarrow> storage_Option" where
  "storage_WithEndpoint endpoint = (\<lambda>o'. o'\<lparr>storage_Options.BaseEndpoint := endpoint\<rparr>)"

definition storage_WithRegion :: "string \<Rightarrow> storage_Option" where
  "storage_WithRegion region = (\<lambda>o'. o'\<lparr>storage_Options.Region := region\<rparr>)"

definition storage_WithPathStyle :: "bool \<Rightarrow> storage_Option" where
  "storage_WithPathStyle enabled = (\<lambda>o'. o'\<lparr>storage_Options.UsePathStyle := enabled\<rparr>)"

definition storage_WithAccessKeypair :: "string \<Rightarrow> string \<Rightarrow> storage_Option" where
  "storage_WithAccessKeypair accessKeyID secretAccessKey =
     (\<lambda>o'. o'\<lparr>storage_Options.AccessKeyID := accessKeyID,
              storage_Options.SecretAccessKey := secretAccessKey\<rparr>)"

text \<open>\<^verbatim>\<open>storage.Client\<close> embeds the \<^verbatim>\<open>*s3.Client\<close>, which is its options here.\<close>

record storage_Client =
  Client :: s3_Options

text \<open>
  \<^verbatim>\<open>storage.New\<close>. Loading the default configuration is the one interaction with the SDK,
  and it is recorded.
\<close>

definition storage_New ::
  "environ \<Rightarrow> sdk \<Rightarrow> call list \<Rightarrow> storage_Option list \<Rightarrow> storage_Client outcome \<times> call list" where
  "storage_New env sdk tr doers =
     (let o' = apply_options (storage_Options_defaults env) doers;
          creds = (if storage_Options.AccessKeyID o' \<noteq> '''' \<and> storage_Options.SecretAccessKey o' \<noteq> ''''
                   then Some (StaticCredentialsProvider (storage_Options.AccessKeyID o')
                                (storage_Options.SecretAccessKey o') '''')
                   else None)
      in case sdk_LoadDefaultConfig sdk tr of
           Inl err \<Rightarrow>
             (Fail (Errorf_w ''failed to load Tigris config: '' (FromSDK err)), tr @ [LoadDefaultConfig])
         | Inr cfg \<Rightarrow>
             (Return \<lparr>Client = s3_NewFromConfig cfg
                (\<lambda>opts. let opts = opts\<lparr>s3_BaseEndpoint := Some (storage_Options.BaseEndpoint o'),
                                          s3_Region := storage_Options.Region o',
                                          s3_UsePathStyle := storage_Options.UsePathStyle o'\<rparr>
                        in (case creds of None \<Rightarrow> opts
                            | Some cr \<Rightarrow> opts\<lparr>s3_Credentials := Some cr\<rparr>))\<rparr>,
              tr @ [LoadDefaultConfig]))"

section \<open>Package simplestorage: construction (options.go, client.go)\<close>

record Options =
  BucketName :: string
  AccessKeyID :: string
  SecretAccessKey :: string
  BaseEndpoint :: string
  Region :: string
  UsePathStyle :: bool

type_synonym Option = "Options \<Rightarrow> Options"

definition Options_defaults :: "environ \<Rightarrow> Options" where
  "Options_defaults env =
     \<lparr>Options.BucketName = env ''TIGRIS_STORAGE_BUCKET'',
      Options.AccessKeyID = env ''TIGRIS_STORAGE_ACCESS_KEY_ID'',
      Options.SecretAccessKey = env ''TIGRIS_STORAGE_SECRET_ACCESS_KEY'',
      Options.BaseEndpoint = GlobalEndpoint,
      Options.Region = ''auto'',
      Options.UsePathStyle = False\<rparr>"

definition WithBucket :: "string \<Rightarrow> Option" where
  "WithBucket bucketName = (\<lambda>o'. o'\<lparr>Options.BucketName := bucketName\<rparr>)"

definition WithFlyEndpoint :: Option where
  "WithFlyEndpoint = (\<lambda>o'. o'\<lparr>Options.BaseEndpoint := FlyEndpoint\<rparr>)"

definition WithGlobalEndpoint :: Option where
  "WithGlobalEndpoint = (\<lambda>o'. o'\<lparr>Options.BaseEndpoint := GlobalEndpoint\<rparr>)"

definition WithEndpoint :: "string \<Rightarrow> Option" where
  "WithEndpoint endpoint = (\<lambda>o'. o'\<lparr>Options.BaseEndpoint := endpoint\<rparr>)"

definition WithRegion :: "string \<Rightarrow> Option" where
  "WithRegion region = (\<lambda>o'. o'\<lparr>Options.Region := region\<rparr>)"

definition WithPathStyle :: "bool \<Rightarrow> Option" where
  "WithPathStyle enabled = (\<lambda>o'. o'\<lparr>Options.UsePathStyle := enabled\<rparr>)"

definition WithAccessKeypair :: "string \<Rightarrow> string \<Rightarrow> Option" where
  "WithAccessKeypair accessKeyID secretAccessKey =
     (\<lambda>o'. o'\<lparr>Options.AccessKeyID := accessKeyID, Options.SecretAccessKey := secretAccessKey\<rparr>)"

text \<open>\<^verbatim>\<open>simplestorage.Client\<close>: the storage client and the resolved options.\<close>

record Client =
  cli :: storage_Client
  options :: Options

text \<open>
  \<^verbatim>\<open>simplestorage.New\<close>: resolve the options, refuse an empty bucket name, then build
  the storage client from the resolved values.
\<close>

definition New ::
  "environ \<Rightarrow> sdk \<Rightarrow> call list \<Rightarrow> Option list \<Rightarrow> Client outcome \<times> call list" where
  "New env sdk tr doers =
     (let o' = apply_options (Options_defaults env) doers;
          errs = (if Options.BucketName o' = '''' then [Sentinel ErrNoBucketName] else [])
      in if length errs \<noteq> 0
         then (Fail (Errorf_w ''simplestorage: can't create client: '' (Join errs)), tr)
         else
           let storageOpts = (if Options.BaseEndpoint o' \<noteq> GlobalEndpoint
                              then [storage_WithEndpoint (Options.BaseEndpoint o')] else []);
               storageOpts = storageOpts @ [storage_WithRegion (Options.Region o')];
               storageOpts = storageOpts @ [storage_WithPathStyle (Options.UsePathStyle o')];
               storageOpts = (if Options.AccessKeyID o' \<noteq> '''' \<and> Options.SecretAccessKey o' \<noteq> ''''
                              then storageOpts @ [storage_WithAccessKeypair (Options.AccessKeyID o')
                                                    (Options.SecretAccessKey o')]
                              else storageOpts)
           in case storage_New env sdk tr storageOpts of
                (Return cl, tr') \<Rightarrow> (Return \<lparr>cli = cl, options = o'\<rparr>, tr')
              | (Fail err, tr') \<Rightarrow>
                  (Fail (Errorf_w ''simplestorage: can't create storage client: '' err), tr')
              | (Panic, tr') \<Rightarrow> (Panic, tr'))"


section \<open>Package tigrisheaders (tigrisheaders.go)\<close>

definition WithHeader :: "string \<Rightarrow> string \<Rightarrow> s3_option" where
  "WithHeader key val = (\<lambda>opts. opts\<lparr>APIOptions := APIOptions opts @ [(key, val)]\<rparr>)"

text \<open>
  \<^verbatim>\<open>url.QueryEscape\<close> of the Go standard library (net/url, mode
  \<^verbatim>\<open>encodeQueryComponent\<close>), byte by byte: letters, digits and \<^verbatim>\<open>-_.~\<close> stay, a space
  becomes \<^verbatim>\<open>+\<close>, every other byte becomes \<^verbatim>\<open>%\<close> and its two upper-case hex digits.
\<close>

definition shouldEscape :: "char \<Rightarrow> bool" where
  "shouldEscape c =
     (let n = (of_char c :: nat) in
      if (97 \<le> n \<and> n \<le> 122) \<or> (65 \<le> n \<and> n \<le> 90) \<or> (48 \<le> n \<and> n \<le> 57) then False
      else if c = CHR ''-'' \<or> c = CHR ''_'' \<or> c = CHR ''.'' \<or> c = CHR ''~'' then False
      else True)"

definition upperhex :: string where
  "upperhex = ''0123456789ABCDEF''"

definition escape_byte :: "char \<Rightarrow> string" where
  "escape_byte c =
     (if c = CHR '' '' then ''+''
      else if shouldEscape c
        then [CHR ''%'', upperhex ! ((of_char c :: nat) div 16), upperhex ! ((of_char c :: nat) mod 16)]
      else [c])"

definition QueryEscape :: "string \<Rightarrow> string" where
  "QueryEscape s = concat (map escape_byte s)"

text \<open>
  The inverse direction, \<^verbatim>\<open>url.QueryUnescape\<close>: \<^verbatim>\<open>+\<close> is a space, \<^verbatim>\<open>%XY\<close> is the byte
  with hex digits \<open>X\<close> and \<open>Y\<close>, and a \<^verbatim>\<open>%\<close> without two hex digits is an error. The
  library never calls it; it states what a reader of the header gets back.
\<close>

definition unhex :: "char \<Rightarrow> nat option" where
  "unhex c =
     (let n = (of_char c :: nat) in
      if 48 \<le> n \<and> n \<le> 57 then Some (n - 48)
      else if 97 \<le> n \<and> n \<le> 102 then Some (n - 97 + 10)
      else if 65 \<le> n \<and> n \<le> 70 then Some (n - 65 + 10)
      else None)"

fun QueryUnescape :: "string \<Rightarrow> string option" where
  "QueryUnescape [] = Some []"
| "QueryUnescape (c # rest) =
     (if c = CHR ''%'' then
        (case rest of
           x # y # rest' \<Rightarrow>
             (case (unhex x, unhex y) of
                (Some hi, Some lo) \<Rightarrow> map_option ((#) (char_of (hi * 16 + lo))) (QueryUnescape rest')
              | _ \<Rightarrow> None)
         | _ \<Rightarrow> None)
      else map_option ((#) (if c = CHR ''+'' then CHR '' '' else c)) (QueryUnescape rest))"

text \<open>\<^verbatim>\<open>strings.Join(elems, sep)\<close>.\<close>

fun strings_Join :: "string list \<Rightarrow> string \<Rightarrow> string" where
  "strings_Join [] sep = ''''"
| "strings_Join [e] sep = e"
| "strings_Join (e # es) sep = e @ sep @ strings_Join es sep"

definition tigrisheaders_WithStaticReplicationRegions :: "string list \<Rightarrow> s3_option" where
  "tigrisheaders_WithStaticReplicationRegions regions =
     WithHeader ''X-Tigris-Regions'' (strings_Join regions '','')"

definition tigrisheaders_WithEnableSnapshot :: s3_option where
  "tigrisheaders_WithEnableSnapshot = WithHeader ''X-Tigris-Enable-Snapshot'' ''true''"

definition WithTakeSnapshot :: "string \<Rightarrow> s3_option" where
  "WithTakeSnapshot desc = WithHeader ''X-Tigris-Snapshot'' (''true; name='' @ QueryEscape desc)"

definition tigrisheaders_WithSnapshotVersion :: "string \<Rightarrow> s3_option" where
  "tigrisheaders_WithSnapshotVersion snapshotVersion =
     WithHeader ''X-Tigris-Snapshot-Version'' snapshotVersion"

text \<open>
  Modelled from the spec: \<^verbatim>\<open>tigrisheaders.WithListSnapshots\<close> and
  \<^verbatim>\<open>tigrisheaders.WithForkSourceBucket\<close>, which buckets.go calls and tigrisheaders.go does
  not hold. The spec: listing snapshots is a bucket-listing call "annotated with a header
  naming the target bucket", forking a bucket-creation call "annotated with a fork source
  header". The header names are those client.go uses for the same two calls.
\<close>

definition WithListSnapshots :: "string \<Rightarrow> s3_option" where
  "WithListSnapshots bucketName = WithHeader ''X-Tigris-Snapshot'' bucketName"

definition WithForkSourceBucket :: "string \<Rightarrow> s3_option" where
  "WithForkSourceBucket sourceBucket = WithHeader ''X-Tigris-Fork-Source-Bucket'' sourceBucket"

section \<open>Package storage: the client (client.go)\<close>

text \<open>
  A method of the embedded \<^verbatim>\<open>*s3.Client\<close>: the call runs with the client's options as
  the per-call option functions change them, the SDK answers, and the call is recorded.
\<close>

definition effective :: "storage_Client \<Rightarrow> s3_option list \<Rightarrow> s3_Options" where
  "effective cl optFns = apply_options (Client cl) optFns"

definition s3_invoke ::
  "(call list \<Rightarrow> call \<Rightarrow> sdk_error + 'a) \<Rightarrow> call list \<Rightarrow> call \<Rightarrow> (sdk_error + 'a) \<times> call list" where
  "s3_invoke answer tr cl = (answer tr cl, tr @ [cl])"

text \<open>
  \<^verbatim>\<open>CreateBucketSnapshot\<close> and \<^verbatim>\<open>CreateSnapshotEnabledBucket\<close>: one header appended to the
  caller's options, then \<^verbatim>\<open>CreateBucket\<close>. The input struct is the caller's; \<open>bucket\<close> is
  its \<open>Bucket\<close> field.
\<close>

definition storage_CreateBucketSnapshot ::
  "sdk \<Rightarrow> storage_Client \<Rightarrow> call list \<Rightarrow> string \<Rightarrow> string option \<Rightarrow> s3_option list
     \<Rightarrow> (sdk_error + unit) \<times> call list" where
  "storage_CreateBucketSnapshot sdk c tr description bucket opts =
     (let opts = opts @ [WithTakeSnapshot description]
      in s3_invoke (sdk_CreateBucket sdk) tr (S3_CreateBucket bucket (effective c opts)))"

definition CreateSnapshotEnabledBucket ::
  "sdk \<Rightarrow> storage_Client \<Rightarrow> call list \<Rightarrow> string option \<Rightarrow> s3_option list
     \<Rightarrow> (sdk_error + unit) \<times> call list" where
  "CreateSnapshotEnabledBucket sdk c tr bucket opts =
     (let opts = opts @ [tigrisheaders_WithEnableSnapshot]
      in s3_invoke (sdk_CreateBucket sdk) tr (S3_CreateBucket bucket (effective c opts)))"

record HeadBucketForkOrSnapshotOutput =
  SnapshotsEnabled :: bool
  SourceBucket :: string
  SourceBucketSnapshot :: string
  IsForkParent :: bool

definition HeadBucketForkOrSnapshot ::
  "sdk \<Rightarrow> storage_Client \<Rightarrow> call list \<Rightarrow> string option \<Rightarrow> s3_option list
     \<Rightarrow> (goerror + HeadBucketForkOrSnapshotOutput) \<times> call list" where
  "HeadBucketForkOrSnapshot sdk c tr bucket opts =
     (case s3_invoke (sdk_HeadBucket sdk) tr (S3_HeadBucket bucket (effective c opts)) of
        (Inl err, tr') \<Rightarrow> (Inl (FromSDK err), tr')
      | (Inr resp, tr') \<Rightarrow>
          (case as_nethttp_Response (GetRawResponse resp) of
             None \<Rightarrow> (Inl (ErrorsNew ''unexpected response type from middleware''), tr')
           | Some header \<Rightarrow>
               (Inr \<lparr>HeadBucketForkOrSnapshotOutput.SnapshotsEnabled =
                       (Header_Get header ''X-Tigris-Enable-Snapshot'' = ''true''),
                     HeadBucketForkOrSnapshotOutput.SourceBucket =
                       Header_Get header ''X-Tigris-Fork-Source-Bucket'',
                     HeadBucketForkOrSnapshotOutput.SourceBucketSnapshot =
                       Header_Get header ''X-Tigris-Fork-Source-Bucket-Snapshot'',
                     HeadBucketForkOrSnapshotOutput.IsForkParent =
                       (Header_Get header ''X-Tigris-Is-Fork-Parent'' = ''true'')\<rparr>, tr')))"


section \<open>Package simplestorage: object operations (client.go)\<close>

record ClientOptions =
  BucketName :: string
  S3Options :: "s3_option list"
  StartAfter :: "string option"
  MaxKeys :: "int32 option"
  Delimiter :: "string option"
  Prefix :: "string option"
  PaginationToken :: "string option"
  ContentType :: "string option"
  ContentDisposition :: "string option"

type_synonym ClientOption = "ClientOptions \<Rightarrow> ClientOptions"

definition OverrideBucket :: "string \<Rightarrow> ClientOption" where
  "OverrideBucket bucket = (\<lambda>co. co\<lparr>ClientOptions.BucketName := bucket\<rparr>)"

definition WithS3Options :: "s3_option list \<Rightarrow> ClientOption" where
  "WithS3Options opts = (\<lambda>co. co\<lparr>ClientOptions.S3Options := ClientOptions.S3Options co @ opts\<rparr>)"

definition WithStartAfter :: "string \<Rightarrow> ClientOption" where
  "WithStartAfter startAfter = (\<lambda>co. co\<lparr>ClientOptions.StartAfter := Some startAfter\<rparr>)"

definition WithMaxKeys :: "int32 \<Rightarrow> ClientOption" where
  "WithMaxKeys maxKeys = (\<lambda>co. co\<lparr>ClientOptions.MaxKeys := Some maxKeys\<rparr>)"

definition WithDelimiter :: "string \<Rightarrow> ClientOption" where
  "WithDelimiter delimiter = (\<lambda>co. co\<lparr>ClientOptions.Delimiter := Some delimiter\<rparr>)"

definition WithPrefix :: "string \<Rightarrow> ClientOption" where
  "WithPrefix prefix = (\<lambda>co. co\<lparr>ClientOptions.Prefix := Some prefix\<rparr>)"

definition WithPaginationToken :: "string \<Rightarrow> ClientOption" where
  "WithPaginationToken token = (\<lambda>co. co\<lparr>ClientOptions.PaginationToken := Some token\<rparr>)"

definition WithContentType :: "string \<Rightarrow> ClientOption" where
  "WithContentType contentType = (\<lambda>co. co\<lparr>ClientOptions.ContentType := Some contentType\<rparr>)"

definition WithContentDisposition :: "string \<Rightarrow> ClientOption" where
  "WithContentDisposition disposition =
     (\<lambda>co. co\<lparr>ClientOptions.ContentDisposition := Some disposition\<rparr>)"

definition ClientOptions_defaults :: "Options \<Rightarrow> ClientOptions" where
  "ClientOptions_defaults o' =
     \<lparr>ClientOptions.BucketName = Options.BucketName o',
      ClientOptions.S3Options = [],
      ClientOptions.StartAfter = None,
      ClientOptions.MaxKeys = None,
      ClientOptions.Delimiter = None,
      ClientOptions.Prefix = None,
      ClientOptions.PaginationToken = None,
      ClientOptions.ContentType = None,
      ClientOptions.ContentDisposition = None\<rparr>"

record Object =
  Bucket :: string
  Key :: string
  ContentType :: string
  ContentDisposition :: string
  Etag :: string
  Version :: string
  Size :: int64
  LastModified :: gotime
  Metadata :: "string \<rightharpoonup> string"
  URL :: string
  Body :: "string option"

record ListResult =
  Items :: "Object list"
  NextToken :: string
  HasMore :: bool

definition Get ::
  "sdk \<Rightarrow> Client \<Rightarrow> call list \<Rightarrow> string \<Rightarrow> ClientOption list \<Rightarrow> Object outcome \<times> call list" where
  "Get sdk c tr key opts =
     (let o' = apply_options (ClientOptions_defaults (options c)) opts
      in case s3_invoke (sdk_GetObject sdk) tr
                (S3_GetObject (Some (ClientOptions.BucketName o')) (Some key)
                   (effective (cli c) (ClientOptions.S3Options o'))) of
           (Inl err, tr') \<Rightarrow>
             (Fail (Errorf_v (''simplestorage: can't get '' @ ClientOptions.BucketName o' @ ''/'' @ key @ '': '')
                      (FromSDK err)), tr')
         | (Inr resp, tr') \<Rightarrow>
             (Return \<lparr>Object.Bucket = ClientOptions.BucketName o',
                      Object.Key = key,
                      Object.ContentType = lower (GetObjectOutput.ContentType resp) ''application/octet-stream'',
                      Object.ContentDisposition = '''',
                      Object.Etag = lower (GetObjectOutput.ETag resp) '''',
                      Object.Version = lower (GetObjectOutput.VersionId resp) '''',
                      Object.Size = lower (GetObjectOutput.ContentLength resp) 0,
                      Object.LastModified = lower (GetObjectOutput.LastModified resp) zero_time,
                      Object.Metadata = GetObjectOutput.Metadata resp,
                      Object.URL = '''',
                      Object.Body = GetObjectOutput.Body resp\<rparr>, tr'))"

definition Head ::
  "sdk \<Rightarrow> Client \<Rightarrow> call list \<Rightarrow> string \<Rightarrow> ClientOption list \<Rightarrow> Object outcome \<times> call list" where
  "Head sdk c tr key opts =
     (let o' = apply_options (ClientOptions_defaults (options c)) opts
      in case s3_invoke (sdk_HeadObject sdk) tr
                (S3_HeadObject (Some (ClientOptions.BucketName o')) (Some key)
                   (effective (cli c) (ClientOptions.S3Options o'))) of
           (Inl err, tr') \<Rightarrow>
             (Fail (Errorf_v (''simplestorage: can't head '' @ ClientOptions.BucketName o' @ ''/'' @ key @ '': '')
                      (FromSDK err)), tr')
         | (Inr resp, tr') \<Rightarrow>
             (Return \<lparr>Object.Bucket = ClientOptions.BucketName o',
                      Object.Key = key,
                      Object.ContentType = lower (HeadObjectOutput.ContentType resp) ''application/octet-stream'',
                      Object.ContentDisposition = lower (HeadObjectOutput.ContentDisposition resp) '''',
                      Object.Etag = lower (HeadObjectOutput.ETag resp) '''',
                      Object.Version = lower (HeadObjectOutput.VersionId resp) '''',
                      Object.Size = lower (HeadObjectOutput.ContentLength resp) 0,
                      Object.LastModified = lower (HeadObjectOutput.LastModified resp) zero_time,
                      Object.Metadata = HeadObjectOutput.Metadata resp,
                      Object.URL = '''',
                      Object.Body = None\<rparr>, tr'))"

text \<open>
  \<^verbatim>\<open>Put\<close> takes a pointer to the object: \<^verbatim>\<open>nil\<close> panics when the request is built, before
  any call; otherwise the object is updated in place and returned.
\<close>

definition Put ::
  "sdk \<Rightarrow> Client \<Rightarrow> call list \<Rightarrow> Object option \<Rightarrow> ClientOption list \<Rightarrow> Object outcome \<times> call list" where
  "Put sdk c tr obj opts =
     (let o' = apply_options (ClientOptions_defaults (options c)) opts
      in case obj of
           None \<Rightarrow> (Panic, tr)
         | Some ob \<Rightarrow>
            (case s3_invoke (sdk_PutObject sdk) tr
                    (S3_PutObject
                       \<lparr>PutObjectInput.Bucket = Some (ClientOptions.BucketName o'),
                        PutObjectInput.Key = Some (Object.Key ob),
                        PutObjectInput.Body = Object.Body ob,
                        PutObjectInput.ContentType = raise '''' (Object.ContentType ob),
                        PutObjectInput.ContentLength = raise 0 (Object.Size ob),
                        PutObjectInput.ContentDisposition = None\<rparr>
                       (effective (cli c) (ClientOptions.S3Options o'))) of
               (Inl err, tr') \<Rightarrow>
                 (Fail (Errorf_v (''simplestorage: can't put '' @ ClientOptions.BucketName o' @ ''/''
                                   @ Object.Key ob @ '': '') (FromSDK err)), tr')
             | (Inr resp, tr') \<Rightarrow>
                 (Return (ob\<lparr>Object.Bucket := ClientOptions.BucketName o',
                             Object.Etag := lower (PutObjectOutput.ETag resp) '''',
                             Object.Version := lower (PutObjectOutput.VersionId resp) ''''\<rparr>), tr')))"

definition Delete ::
  "sdk \<Rightarrow> Client \<Rightarrow> call list \<Rightarrow> string \<Rightarrow> ClientOption list \<Rightarrow> unit outcome \<times> call list" where
  "Delete sdk c tr key opts =
     (let o' = apply_options (ClientOptions_defaults (options c)) opts
      in case s3_invoke (sdk_DeleteObject sdk) tr
                (S3_DeleteObject (Some (ClientOptions.BucketName o')) (Some key)
                   (effective (cli c) (ClientOptions.S3Options o'))) of
           (Inl err, tr') \<Rightarrow>
             (Fail (Errorf_v (''simplestorage: can't delete '' @ ClientOptions.BucketName o' @ ''/'' @ key @ '': '')
                      (FromSDK err)), tr')
         | (Inr resp, tr') \<Rightarrow> (Return (), tr'))"

definition List ::
  "sdk \<Rightarrow> Client \<Rightarrow> call list \<Rightarrow> ClientOption list \<Rightarrow> ListResult outcome \<times> call list" where
  "List sdk c tr opts =
     (let o' = apply_options (ClientOptions_defaults (options c)) opts
      in case s3_invoke (sdk_ListObjectsV2 sdk) tr
                (S3_ListObjectsV2
                   \<lparr>ListObjectsV2Input.Bucket = Some (ClientOptions.BucketName o'),
                    ListObjectsV2Input.Delimiter = ClientOptions.Delimiter o',
                    ListObjectsV2Input.Prefix = ClientOptions.Prefix o',
                    ListObjectsV2Input.MaxKeys = ClientOptions.MaxKeys o',
                    ListObjectsV2Input.ContinuationToken = ClientOptions.PaginationToken o',
                    ListObjectsV2Input.StartAfter = ClientOptions.StartAfter o'\<rparr>
                   (effective (cli c) (ClientOptions.S3Options o'))) of
           (Inl err, tr') \<Rightarrow>
             (Fail (Errorf_v (''simplestorage: can't list '' @ ClientOptions.BucketName o' @ '': '')
                      (FromSDK err)), tr')
         | (Inr resp, tr') \<Rightarrow>
             (let result = \<lparr>Items = [], NextToken = '''', HasMore = lower (IsTruncated resp) False\<rparr>;
                  result = result\<lparr>NextToken := lower (NextContinuationToken resp) ''''\<rparr>;
                  result = result\<lparr>Items := Items result @
                     map (\<lambda>obj. \<lparr>Object.Bucket = ClientOptions.BucketName o',
                                   Object.Key = lower (types_Object.Key obj) '''',
                                   Object.ContentType = '''',
                                   Object.ContentDisposition = '''',
                                   Object.Etag = lower (types_Object.ETag obj) '''',
                                   Object.Version = '''',
                                   Object.Size = lower (types_Object.Size obj) 0,
                                   Object.LastModified = lower (types_Object.LastModified obj) zero_time,
                                   Object.Metadata = Map.empty,
                                   Object.URL = '''',
                                   Object.Body = None\<rparr>) (Contents resp)\<rparr>
              in (Return result, tr')))"

text \<open>The three presign helpers: one presign call each, with the expiry as its option.\<close>

definition presignURLGet ::
  "sdk \<Rightarrow> storage_Client \<Rightarrow> call list \<Rightarrow> string \<Rightarrow> string \<Rightarrow> int64 \<Rightarrow> string outcome \<times> call list" where
  "presignURLGet sdk client tr bucket key expiry =
     (case s3_invoke (sdk_Presign sdk) tr
             (S3_PresignGetObject (Some bucket) (Some key) expiry (effective client [])) of
        (Inl err, tr') \<Rightarrow> (Fail (Errorf_w ''presign get: '' (FromSDK err)), tr')
      | (Inr url, tr') \<Rightarrow> (Return url, tr'))"

definition presignURLPut ::
  "sdk \<Rightarrow> storage_Client \<Rightarrow> call list \<Rightarrow> string \<Rightarrow> string \<Rightarrow> int64 \<Rightarrow> ClientOptions
     \<Rightarrow> string outcome \<times> call list" where
  "presignURLPut sdk client tr bucket key expiry opts =
     (case s3_invoke (sdk_Presign sdk) tr
             (S3_PresignPutObject (Some bucket) (Some key)
                (case ClientOptions.ContentType opts of None \<Rightarrow> None | Some ct \<Rightarrow> Some ct)
                (case ClientOptions.ContentDisposition opts of None \<Rightarrow> None | Some cd \<Rightarrow> Some cd)
                expiry (effective client [])) of
        (Inl err, tr') \<Rightarrow> (Fail (Errorf_w ''presign put: '' (FromSDK err)), tr')
      | (Inr url, tr') \<Rightarrow> (Return url, tr'))"

definition presignURLDelete ::
  "sdk \<Rightarrow> storage_Client \<Rightarrow> call list \<Rightarrow> string \<Rightarrow> string \<Rightarrow> int64 \<Rightarrow> string outcome \<times> call list" where
  "presignURLDelete sdk client tr bucket key expiry =
     (case s3_invoke (sdk_Presign sdk) tr
             (S3_PresignDeleteObject (Some bucket) (Some key) expiry (effective client [])) of
        (Inl err, tr') \<Rightarrow> (Fail (Errorf_w ''presign delete: '' (FromSDK err)), tr')
      | (Inr url, tr') \<Rightarrow> (Return url, tr'))"

text \<open>
  \<^verbatim>\<open>PresignURL\<close>: the method, the key and the expiry are checked in this order, then the
  options are resolved and the call is routed by method. \<^verbatim>\<open>http.MethodGet\<close>,
  \<^verbatim>\<open>http.MethodPut\<close> and \<^verbatim>\<open>http.MethodDelete\<close> are the strings \<^verbatim>\<open>GET\<close>, \<^verbatim>\<open>PUT\<close> and
  \<^verbatim>\<open>DELETE\<close>; the expiry is a signed 64-bit count of nanoseconds.
\<close>

definition PresignURL ::
  "sdk \<Rightarrow> Client \<Rightarrow> call list \<Rightarrow> string \<Rightarrow> string \<Rightarrow> int64 \<Rightarrow> ClientOption list
     \<Rightarrow> string outcome \<times> call list" where
  "PresignURL sdk c tr method key expiry opts =
     (if \<not> (method = ''GET'' \<or> method = ''PUT'' \<or> method = ''DELETE'')
      then (Fail (UnsupportedMethod method), tr)
      else if key = ''''
      then (Fail (ErrorsNew ''simplestorage: key cannot be empty for presigned URL''), tr)
      else if sint expiry \<le> 0
      then (Fail (InvalidExpiry expiry), tr)
      else
        let o' = apply_options (ClientOptions_defaults (options c)) opts
        in if method = ''GET''
           then presignURLGet sdk (cli c) tr (ClientOptions.BucketName o') key expiry
           else if method = ''PUT''
           then presignURLPut sdk (cli c) tr (ClientOptions.BucketName o') key expiry o'
           else if method = ''DELETE''
           then presignURLDelete sdk (cli c) tr (ClientOptions.BucketName o') key expiry
           else (Return '''', tr))"


section \<open>Package simplestorage: bucket management (bucket_options.go, buckets.go)\<close>

text \<open>
  Modelled from the spec: the field \<open>ForceDelete\<close> of \<^verbatim>\<open>BucketOptions\<close>, which
  \<^verbatim>\<open>DeleteBucket\<close> reads and the options file at hand does not declare. The spec calls it
  the force flag of \<^verbatim>\<open>DeleteBucket\<close>; left unset by \<^verbatim>\<open>defaults\<close>, it is the zero value
  \<^verbatim>\<open>false\<close>. The other fields are those of the options file.
\<close>

record BucketOptions =
  EnableSnapshot :: bool
  SnapshotVersion :: string
  ForceDelete :: bool
  Region :: string
  MaxKeys :: "int32 option"
  ContinuationToken :: "string option"
  S3Options :: "s3_option list"

type_synonym BucketOption = "BucketOptions \<Rightarrow> BucketOptions"

definition BucketOptions_defaults :: BucketOptions where
  "BucketOptions_defaults =
     \<lparr>BucketOptions.EnableSnapshot = False,
      BucketOptions.SnapshotVersion = '''',
      BucketOptions.ForceDelete = False,
      BucketOptions.Region = '''',
      BucketOptions.MaxKeys = None,
      BucketOptions.ContinuationToken = None,
      BucketOptions.S3Options = []\<rparr>"

definition WithEnableSnapshot :: BucketOption where
  "WithEnableSnapshot =
     (\<lambda>o'. o'\<lparr>BucketOptions.EnableSnapshot := True,
              BucketOptions.S3Options := BucketOptions.S3Options o' @ [tigrisheaders_WithEnableSnapshot]\<rparr>)"

definition WithSnapshotVersion :: "string \<Rightarrow> BucketOption" where
  "WithSnapshotVersion version =
     (\<lambda>o'. o'\<lparr>BucketOptions.SnapshotVersion := version,
              BucketOptions.S3Options :=
                BucketOptions.S3Options o' @ [tigrisheaders_WithSnapshotVersion version]\<rparr>)"

definition WithBucketRegion :: "string \<Rightarrow> BucketOption" where
  "WithBucketRegion region =
     (\<lambda>o'. o'\<lparr>BucketOptions.Region := region,
              BucketOptions.S3Options :=
                BucketOptions.S3Options o' @ [tigrisheaders_WithStaticReplicationRegions [region]]\<rparr>)"

definition WithListLimit :: "int32 \<Rightarrow> BucketOption" where
  "WithListLimit limit = (\<lambda>o'. o'\<lparr>BucketOptions.MaxKeys := Some limit\<rparr>)"

definition WithListToken :: "string \<Rightarrow> BucketOption" where
  "WithListToken token = (\<lambda>o'. o'\<lparr>BucketOptions.ContinuationToken := Some token\<rparr>)"

text \<open>
  Modelled from the spec: the option \<^verbatim>\<open>WithForceDelete\<close>, which the tests call and the
  options file at hand does not define. The spec calls it the force option of
  \<^verbatim>\<open>DeleteBucket\<close>, and the test of the options says that it sets \<open>ForceDelete\<close>.
\<close>

definition WithForceDelete :: BucketOption where
  "WithForceDelete = (\<lambda>o'. o'\<lparr>BucketOptions.ForceDelete := True\<rparr>)"

record BucketInfo =
  Name :: string
  Created :: gotime
  SnapshotsEnabled :: bool
  IsForkParent :: bool
  SourceBucket :: string
  SourceSnapshot :: string

record BucketList =
  Buckets :: "BucketInfo list"
  NextToken :: string
  Truncated :: bool

record SnapshotInfo =
  Name :: string
  Version :: string
  Created :: gotime
  Bucket :: string

record SnapshotList =
  Snapshots :: "SnapshotInfo list"
  Bucket :: string

text \<open>
  \<^verbatim>\<open>CreateBucket\<close>. \<open>now\<close> is what \<^verbatim>\<open>time.Now()\<close> reads when the call returns.
\<close>

definition CreateBucket ::
  "sdk \<Rightarrow> Client \<Rightarrow> call list \<Rightarrow> gotime \<Rightarrow> string \<Rightarrow> BucketOption list
     \<Rightarrow> BucketInfo outcome \<times> call list" where
  "CreateBucket sdk c tr now bucket opts =
     (if bucket = ''''
      then (Fail (ErrorsNew ''simplestorage: bucket name required for bucket management operations''), tr)
      else
        let o' = apply_options BucketOptions_defaults opts
        in case (if BucketOptions.EnableSnapshot o'
                 then CreateSnapshotEnabledBucket sdk (cli c) tr (Some bucket) (BucketOptions.S3Options o')
                 else s3_invoke (sdk_CreateBucket sdk) tr
                        (S3_CreateBucket (Some bucket) (effective (cli c) (BucketOptions.S3Options o')))) of
             (Inl err, tr') \<Rightarrow>
               (Fail (Errorf_w (''simplestorage: can't create bucket '' @ bucket @ '': '') (FromSDK err)), tr')
           | (Inr out, tr') \<Rightarrow>
               (Return \<lparr>BucketInfo.Name = bucket, BucketInfo.Created = now,
                        BucketInfo.SnapshotsEnabled = False, BucketInfo.IsForkParent = False,
                        BucketInfo.SourceBucket = '''', BucketInfo.SourceSnapshot = ''''\<rparr>, tr'))"

text \<open>
  The loop of \<^verbatim>\<open>emptyBucket\<close>: one \<^verbatim>\<open>DeleteObject\<close> per listed object, in the order of
  the list, stopping at the first failure. The error message dereferences the key, so a
  failed delete of an object whose key is \<^verbatim>\<open>nil\<close> panics.
\<close>

fun delete_each ::
  "sdk \<Rightarrow> Client \<Rightarrow> call list \<Rightarrow> string \<Rightarrow> BucketOptions \<Rightarrow> types_Object list
     \<Rightarrow> unit outcome \<times> call list" where
  "delete_each sdk c tr bucket o' [] = (Return (), tr)"
| "delete_each sdk c tr bucket o' (obj # rest) =
     (case s3_invoke (sdk_DeleteObject sdk) tr
             (S3_DeleteObject (Some bucket) (types_Object.Key obj)
                (effective (cli c) (BucketOptions.S3Options o'))) of
        (Inl err, tr') \<Rightarrow>
          (case types_Object.Key obj of
             None \<Rightarrow> (Panic, tr')
           | Some k \<Rightarrow> (Fail (Errorf_w (''can't delete object '' @ k @ '': '') (FromSDK err)), tr'))
      | (Inr out, tr') \<Rightarrow> delete_each sdk c tr' bucket o' rest)"

definition emptyBucket ::
  "sdk \<Rightarrow> Client \<Rightarrow> call list \<Rightarrow> string \<Rightarrow> BucketOptions \<Rightarrow> unit outcome \<times> call list" where
  "emptyBucket sdk c tr bucket o' =
     (case s3_invoke (sdk_ListObjectsV2 sdk) tr
             (S3_ListObjectsV2
                \<lparr>ListObjectsV2Input.Bucket = Some bucket,
                 ListObjectsV2Input.Delimiter = None,
                 ListObjectsV2Input.Prefix = None,
                 ListObjectsV2Input.MaxKeys = None,
                 ListObjectsV2Input.ContinuationToken = None,
                 ListObjectsV2Input.StartAfter = None\<rparr>
                (effective (cli c) (BucketOptions.S3Options o'))) of
        (Inl err, tr') \<Rightarrow> (Fail (Errorf_w ''can't list objects: '' (FromSDK err)), tr')
      | (Inr listResp, tr') \<Rightarrow> delete_each sdk c tr' bucket o' (Contents listResp))"

text \<open>The bucket delete that ends \<^verbatim>\<open>DeleteBucket\<close>.\<close>

definition delete_bucket_call ::
  "sdk \<Rightarrow> Client \<Rightarrow> call list \<Rightarrow> string \<Rightarrow> BucketOptions \<Rightarrow> unit outcome \<times> call list" where
  "delete_bucket_call sdk c tr bucket o' =
     (case s3_invoke (sdk_DeleteBucket sdk) tr
             (S3_DeleteBucket (Some bucket) (effective (cli c) (BucketOptions.S3Options o'))) of
        (Inl err, tr') \<Rightarrow>
          (Fail (Errorf_w (''simplestorage: can't delete bucket '' @ bucket @ '': '') (FromSDK err)), tr')
      | (Inr out, tr') \<Rightarrow> (Return (), tr'))"

definition DeleteBucket ::
  "sdk \<Rightarrow> Client \<Rightarrow> call list \<Rightarrow> string \<Rightarrow> BucketOption list \<Rightarrow> unit outcome \<times> call list" where
  "DeleteBucket sdk c tr bucket opts =
     (if bucket = ''''
      then (Fail (ErrorsNew ''simplestorage: bucket name required for bucket management operations''), tr)
      else
        let o' = apply_options BucketOptions_defaults opts
        in if BucketOptions.ForceDelete o'
           then (case emptyBucket sdk c tr bucket o' of
                   (Fail err, tr') \<Rightarrow>
                     (Fail (Errorf_w (''simplestorage: can't empty bucket '' @ bucket @ '': '') err), tr')
                 | (Panic, tr') \<Rightarrow> (Panic, tr')
                 | (Return u, tr') \<Rightarrow> delete_bucket_call sdk c tr' bucket o')
           else delete_bucket_call sdk c tr bucket o')"

text \<open>
  The loop of \<^verbatim>\<open>ListBuckets\<close>. It dereferences the name of each bucket, so a bucket whose
  name is \<^verbatim>\<open>nil\<close> panics: the result is \<^term>\<open>None\<close> then.
\<close>

fun bucket_infos :: "types_Bucket list \<Rightarrow> BucketInfo list option" where
  "bucket_infos [] = Some []"
| "bucket_infos (b # rest) =
     (case types_Bucket.Name b of
        None \<Rightarrow> None
      | Some name \<Rightarrow>
          map_option
            ((#) \<lparr>BucketInfo.Name = name,
                  BucketInfo.Created = lower (CreationDate b) zero_time,
                  BucketInfo.SnapshotsEnabled = False, BucketInfo.IsForkParent = False,
                  BucketInfo.SourceBucket = '''', BucketInfo.SourceSnapshot = ''''\<rparr>)
            (bucket_infos rest))"

definition ListBuckets ::
  "sdk \<Rightarrow> Client \<Rightarrow> call list \<Rightarrow> BucketOption list \<Rightarrow> BucketList outcome \<times> call list" where
  "ListBuckets sdk c tr opts =
     (let o' = apply_options BucketOptions_defaults opts
      in case s3_invoke (sdk_ListBuckets sdk) tr
                (S3_ListBuckets (BucketOptions.ContinuationToken o')
                   (effective (cli c) (BucketOptions.S3Options o'))) of
           (Inl err, tr') \<Rightarrow> (Fail (Errorf_w ''simplestorage: can't list buckets: '' (FromSDK err)), tr')
         | (Inr resp, tr') \<Rightarrow>
             (let result = \<lparr>BucketList.Buckets = [], BucketList.NextToken = '''',
                             Truncated = (ListBucketsOutput.ContinuationToken resp \<noteq> None)\<rparr>
              in case bucket_infos (ListBucketsOutput.Buckets resp) of
                   None \<Rightarrow> (Panic, tr')
                 | Some infos \<Rightarrow>
                     (let result = result\<lparr>BucketList.Buckets := BucketList.Buckets result @ infos\<rparr>;
                          result = (case ListBucketsOutput.ContinuationToken resp of
                                      None \<Rightarrow> result
                                    | Some token \<Rightarrow> result\<lparr>BucketList.NextToken := token\<rparr>)
                      in (Return result, tr'))))"

definition GetBucketInfo ::
  "sdk \<Rightarrow> Client \<Rightarrow> call list \<Rightarrow> string \<Rightarrow> BucketOption list \<Rightarrow> BucketInfo outcome \<times> call list" where
  "GetBucketInfo sdk c tr bucket opts =
     (if bucket = ''''
      then (Fail (ErrorsNew ''simplestorage: bucket name required for bucket management operations''), tr)
      else
        let o' = apply_options BucketOptions_defaults opts
        in case HeadBucketForkOrSnapshot sdk (cli c) tr (Some bucket) (BucketOptions.S3Options o') of
             (Inr tigrisInfo, tr') \<Rightarrow>
               (Return \<lparr>BucketInfo.Name = bucket, BucketInfo.Created = zero_time,
                        BucketInfo.SnapshotsEnabled = HeadBucketForkOrSnapshotOutput.SnapshotsEnabled tigrisInfo,
                        BucketInfo.IsForkParent = HeadBucketForkOrSnapshotOutput.IsForkParent tigrisInfo,
                        BucketInfo.SourceBucket = HeadBucketForkOrSnapshotOutput.SourceBucket tigrisInfo,
                        BucketInfo.SourceSnapshot = SourceBucketSnapshot tigrisInfo\<rparr>, tr')
           | (Inl err, tr') \<Rightarrow>
               (Return \<lparr>BucketInfo.Name = bucket, BucketInfo.Created = zero_time,
                        BucketInfo.SnapshotsEnabled = False, BucketInfo.IsForkParent = False,
                        BucketInfo.SourceBucket = '''', BucketInfo.SourceSnapshot = ''''\<rparr>, tr'))"

definition CreateBucketSnapshot ::
  "sdk \<Rightarrow> Client \<Rightarrow> call list \<Rightarrow> gotime \<Rightarrow> string \<Rightarrow> string \<Rightarrow> BucketOption list
     \<Rightarrow> SnapshotInfo outcome \<times> call list" where
  "CreateBucketSnapshot sdk c tr now bucket description opts =
     (if bucket = ''''
      then (Fail (ErrorsNew ''simplestorage: bucket name required for bucket management operations''), tr)
      else
        let o' = apply_options BucketOptions_defaults opts
        in case storage_CreateBucketSnapshot sdk (cli c) tr description (Some bucket)
                  (BucketOptions.S3Options o') of
             (Inl err, tr') \<Rightarrow>
               (Fail (Errorf_w (''simplestorage: can't create snapshot for bucket '' @ bucket @ '': '')
                        (FromSDK err)), tr')
           | (Inr out, tr') \<Rightarrow>
               (Return \<lparr>SnapshotInfo.Name = description, SnapshotInfo.Version = '''',
                        SnapshotInfo.Created = now, SnapshotInfo.Bucket = bucket\<rparr>, tr'))"

definition ListBucketSnapshots ::
  "sdk \<Rightarrow> Client \<Rightarrow> call list \<Rightarrow> string \<Rightarrow> BucketOption list \<Rightarrow> SnapshotList outcome \<times> call list" where
  "ListBucketSnapshots sdk c tr bucket opts =
     (if bucket = ''''
      then (Fail (ErrorsNew ''simplestorage: bucket name required for bucket management operations''), tr)
      else
        let o' = apply_options BucketOptions_defaults opts;
            o' = o'\<lparr>BucketOptions.S3Options := BucketOptions.S3Options o' @ [WithListSnapshots bucket]\<rparr>
        in case s3_invoke (sdk_ListBuckets sdk) tr
                  (S3_ListBuckets None (effective (cli c) (BucketOptions.S3Options o'))) of
             (Inl err, tr') \<Rightarrow>
               (Fail (Errorf_w (''simplestorage: can't list snapshots for bucket '' @ bucket @ '': '')
                        (FromSDK err)), tr')
           | (Inr resp, tr') \<Rightarrow>
               (let result = \<lparr>Snapshots = [], SnapshotList.Bucket = bucket\<rparr>;
                    result = result\<lparr>Snapshots := Snapshots result @
                       map (\<lambda>b. \<lparr>SnapshotInfo.Name = lower (types_Bucket.Name b) '''',
                                   SnapshotInfo.Version = lower (types_Bucket.Name b) '''',
                                   SnapshotInfo.Created = lower (CreationDate b) zero_time,
                                   SnapshotInfo.Bucket = bucket\<rparr>) (ListBucketsOutput.Buckets resp)\<rparr>
                in (Return result, tr')))"

definition ForkBucket ::
  "sdk \<Rightarrow> Client \<Rightarrow> call list \<Rightarrow> gotime \<Rightarrow> string \<Rightarrow> string \<Rightarrow> BucketOption list
     \<Rightarrow> BucketInfo outcome \<times> call list" where
  "ForkBucket sdk c tr now source target opts =
     (if source = ''''
      then (Fail (ErrorsNew ''simplestorage: source bucket name required for bucket management operations''), tr)
      else if target = ''''
      then (Fail (ErrorsNew ''simplestorage: target bucket name required for bucket management operations''), tr)
      else
        let o' = apply_options BucketOptions_defaults opts;
            o' = o'\<lparr>BucketOptions.S3Options := BucketOptions.S3Options o' @ [WithForkSourceBucket source]\<rparr>
        in case s3_invoke (sdk_CreateBucket sdk) tr
                  (S3_CreateBucket (Some target) (effective (cli c) (BucketOptions.S3Options o'))) of
             (Inl err, tr') \<Rightarrow>
               (Fail (Errorf_w (''simplestorage: can't fork bucket '' @ source @ '' to '' @ target @ '': '')
                        (FromSDK err)), tr')
           | (Inr out, tr') \<Rightarrow>
               (Return \<lparr>BucketInfo.Name = target, BucketInfo.Created = now,
                        BucketInfo.SnapshotsEnabled = False, BucketInfo.IsForkParent = False,
                        BucketInfo.SourceBucket = source,
                        BucketInfo.SourceSnapshot = BucketOptions.SnapshotVersion o'\<rparr>, tr'))"


section \<open>Example backends and an example client\<close>

text \<open>
  A backend on which every call succeeds with an empty answer, a backend on which every
  call fails, and the client \<^verbatim>\<open>New\<close> builds for the bucket \<^verbatim>\<open>b\<close> with nothing set in the
  environment. The theorems below are instantiated on them.
\<close>

definition example_config :: aws_Config where
  "example_config = \<lparr>cfg_Region = ''us-east-1'', cfg_Credentials = Some DefaultChain\<rparr>"

definition example_sdk :: sdk where
  "example_sdk =
     \<lparr>sdk_LoadDefaultConfig = (\<lambda>tr. Inr example_config),
      sdk_GetObject = (\<lambda>tr cl. Inr \<lparr>GetObjectOutput.ContentType = None, GetObjectOutput.ETag = None,
                                     GetObjectOutput.ContentLength = None, GetObjectOutput.VersionId = None,
                                     GetObjectOutput.LastModified = None, GetObjectOutput.Metadata = Map.empty,
                                     GetObjectOutput.Body = None\<rparr>),
      sdk_HeadObject = (\<lambda>tr cl. Inr \<lparr>HeadObjectOutput.ContentType = None,
                                      HeadObjectOutput.ContentDisposition = None,
                                      HeadObjectOutput.ETag = None, HeadObjectOutput.ContentLength = None,
                                      HeadObjectOutput.VersionId = None, HeadObjectOutput.LastModified = None,
                                      HeadObjectOutput.Metadata = Map.empty\<rparr>),
      sdk_PutObject = (\<lambda>tr cl. Inr \<lparr>PutObjectOutput.ETag = Some ''etag'', PutObjectOutput.VersionId = None\<rparr>),
      sdk_DeleteObject = (\<lambda>tr cl. Inr ()),
      sdk_ListObjectsV2 = (\<lambda>tr cl. Inr \<lparr>Contents = [], IsTruncated = None, NextContinuationToken = None\<rparr>),
      sdk_CreateBucket = (\<lambda>tr cl. Inr ()),
      sdk_DeleteBucket = (\<lambda>tr cl. Inr ()),
      sdk_ListBuckets = (\<lambda>tr cl. Inr \<lparr>ListBucketsOutput.Buckets = [],
                                       ListBucketsOutput.ContinuationToken = None\<rparr>),
      sdk_HeadBucket = (\<lambda>tr cl. Inr \<lparr>RawResponse = Some Map.empty\<rparr>),
      sdk_Presign = (\<lambda>tr cl. Inr ''https://b.t3.storage.dev/signed'')\<rparr>"

definition failing_sdk :: sdk where
  "failing_sdk =
     \<lparr>sdk_LoadDefaultConfig = (\<lambda>tr. Inl (SDKError ''unreachable'')),
      sdk_GetObject = (\<lambda>tr cl. Inl (SDKError ''unreachable'')),
      sdk_HeadObject = (\<lambda>tr cl. Inl (SDKError ''unreachable'')),
      sdk_PutObject = (\<lambda>tr cl. Inl (SDKError ''unreachable'')),
      sdk_DeleteObject = (\<lambda>tr cl. Inl (SDKError ''unreachable'')),
      sdk_ListObjectsV2 = (\<lambda>tr cl. Inl (SDKError ''unreachable'')),
      sdk_CreateBucket = (\<lambda>tr cl. Inl (SDKError ''unreachable'')),
      sdk_DeleteBucket = (\<lambda>tr cl. Inl (SDKError ''unreachable'')),
      sdk_ListBuckets = (\<lambda>tr cl. Inl (SDKError ''unreachable'')),
      sdk_HeadBucket = (\<lambda>tr cl. Inl (SDKError ''unreachable'')),
      sdk_Presign = (\<lambda>tr cl. Inl (SDKError ''unreachable''))\<rparr>"

definition example_s3_Options :: s3_Options where
  "example_s3_Options =
     \<lparr>s3_BaseEndpoint = Some ''https://t3.storage.dev'', s3_Region = ''auto'', s3_UsePathStyle = False,
      s3_Credentials = Some DefaultChain, APIOptions = []\<rparr>"

definition example_client :: Client where
  "example_client =
     \<lparr>cli = \<lparr>Client = example_s3_Options\<rparr>,
      options = \<lparr>Options.BucketName = ''b'', Options.AccessKeyID = '''', Options.SecretAccessKey = '''',
                 Options.BaseEndpoint = ''https://t3.storage.dev'', Options.Region = ''auto'',
                 Options.UsePathStyle = False\<rparr>\<rparr>"


text \<open>An object to put: a key and a body, content type and size left at their zero values.\<close>

definition example_object :: Object where
  "example_object =
     \<lparr>Object.Bucket = '''', Object.Key = ''a.txt'', Object.ContentType = '''',
      Object.ContentDisposition = '''', Object.Etag = '''', Object.Version = '''', Object.Size = 0,
      Object.LastModified = zero_time, Object.Metadata = Map.empty, Object.URL = '''',
      Object.Body = Some ''hello''\<rparr>"

text \<open>
  A backend whose \<^verbatim>\<open>HeadBucket\<close> answers with status 200 and the fork and snapshot headers
  of a bucket forked from \<^verbatim>\<open>src\<close>, which the SDK stores as its raw response; and one whose
  \<^verbatim>\<open>ListBuckets\<close> answers with two entries, the second without a name.
\<close>

definition fork_headers :: smithyhttp_Response where
  "fork_headers =
     [''X-Tigris-Enable-Snapshot'' \<mapsto> [''true''],
      ''X-Tigris-Fork-Source-Bucket'' \<mapsto> [''src''],
      ''X-Tigris-Fork-Source-Bucket-Snapshot'' \<mapsto> [''1700000000'']]"

definition forked_bucket_sdk :: sdk where
  "forked_bucket_sdk = example_sdk\<lparr>sdk_HeadBucket := (\<lambda>tr cl. Inr \<lparr>RawResponse = Some fork_headers\<rparr>)\<rparr>"

definition snapshots_sdk :: sdk where
  "snapshots_sdk =
     example_sdk\<lparr>sdk_ListBuckets :=
       (\<lambda>tr cl. Inr \<lparr>ListBucketsOutput.Buckets =
                        [\<lparr>types_Bucket.Name = Some ''1700000000'', CreationDate = Some 1700000000\<rparr>,
                         \<lparr>types_Bucket.Name = None, CreationDate = None\<rparr>],
                      ListBucketsOutput.ContinuationToken = None\<rparr>)\<rparr>"

text \<open>
  Two listing answers: an object listing that is flagged as truncated and carries neither
  objects nor a token, and a bucket listing whose continuation token is present and empty.
\<close>

definition flag_only_sdk :: sdk where
  "flag_only_sdk =
     example_sdk\<lparr>sdk_ListObjectsV2 :=
       (\<lambda>tr cl. Inr \<lparr>Contents = [], IsTruncated = Some True, NextContinuationToken = None\<rparr>)\<rparr>"

definition empty_token_sdk :: sdk where
  "empty_token_sdk =
     example_sdk\<lparr>sdk_ListBuckets :=
       (\<lambda>tr cl. Inr \<lparr>ListBucketsOutput.Buckets = [],
                      ListBucketsOutput.ContinuationToken = Some ''''\<rparr>)\<rparr>"

text \<open>
  A backend that holds one bucket with the given keys and lists at most \<open>limit\<close> keys per
  call, as the S3 API does (at most 1000): the listing is its first page, flagged as
  truncated when keys remain. Deleting an object succeeds; deleting the bucket succeeds
  once every key has been deleted, and fails with \<^verbatim>\<open>BucketNotEmpty\<close> before.
\<close>

fun deleted_key :: "call \<Rightarrow> string option" where
  "deleted_key (S3_DeleteObject bucket key opts) = key"
| "deleted_key cl = None"

definition key_object :: "string \<Rightarrow> types_Object" where
  "key_object k = \<lparr>types_Object.Key = Some k, types_Object.ETag = None, types_Object.Size = None,
                  types_Object.LastModified = None\<rparr>"

definition bucket_sdk :: "nat \<Rightarrow> string list \<Rightarrow> sdk" where
  "bucket_sdk limit keys =
     example_sdk\<lparr>
       sdk_ListObjectsV2 :=
         (\<lambda>tr cl. Inr \<lparr>Contents = map key_object (take limit keys),
                        IsTruncated = Some (limit < length keys),
                        NextContinuationToken = (if limit < length keys then Some ''next'' else None)\<rparr>),
       sdk_DeleteBucket :=
         (\<lambda>tr cl. if list_all (\<lambda>k. Some k \<in> set (map deleted_key tr)) keys
                   then Inr () else Inl (SDKError ''BucketNotEmpty''))\<rparr>"

section \<open>The calls of a forced bucket delete\<close>

text \<open>
  The three kinds of call \<^verbatim>\<open>DeleteBucket\<close> can send for a bucket under resolved options
  \<open>o'\<close>, named so that the theorems on its call sequence can be stated: the listing of
  \<^verbatim>\<open>emptyBucket\<close>, the delete of one listed object, and the final bucket delete.
\<close>

definition list_objects_call :: "Client \<Rightarrow> string \<Rightarrow> BucketOptions \<Rightarrow> call" where
  "list_objects_call c bucket o' =
     S3_ListObjectsV2
       \<lparr>ListObjectsV2Input.Bucket = Some bucket,
        ListObjectsV2Input.Delimiter = None,
        ListObjectsV2Input.Prefix = None,
        ListObjectsV2Input.MaxKeys = None,
        ListObjectsV2Input.ContinuationToken = None,
        ListObjectsV2Input.StartAfter = None\<rparr>
       (effective (cli c) (BucketOptions.S3Options o'))"

definition delete_object_call :: "Client \<Rightarrow> string \<Rightarrow> BucketOptions \<Rightarrow> types_Object \<Rightarrow> call" where
  "delete_object_call c bucket o' obj =
     S3_DeleteObject (Some bucket) (types_Object.Key obj) (effective (cli c) (BucketOptions.S3Options o'))"

definition delete_bucket_request :: "Client \<Rightarrow> string \<Rightarrow> BucketOptions \<Rightarrow> call" where
  "delete_bucket_request c bucket o' =
     S3_DeleteBucket (Some bucket) (effective (cli c) (BucketOptions.S3Options o'))"

text \<open>
  The deletes of the first \<open>n\<close> listed objects all succeed, each asked after the calls
  before it.
\<close>

definition deletes_succeed ::
  "sdk \<Rightarrow> Client \<Rightarrow> call list \<Rightarrow> string \<Rightarrow> BucketOptions \<Rightarrow> types_Object list \<Rightarrow> nat \<Rightarrow> bool" where
  "deletes_succeed sdk c tr bucket o' objs n =
     (\<forall>i < n. sdk_DeleteObject sdk (tr @ map (delete_object_call c bucket o') (take i objs))
                 (delete_object_call c bucket o' (objs ! i)) = Inr ())"

text \<open>
  The same backend with one locked key: deleting that object is refused.
\<close>

definition locked_key_sdk :: "string list \<Rightarrow> string \<Rightarrow> sdk" where
  "locked_key_sdk keys locked =
     (bucket_sdk 1000 keys)\<lparr>
       sdk_DeleteObject :=
         (\<lambda>tr cl. if deleted_key cl = Some locked then Inl (SDKError ''AccessDenied'') else Inr ())\<rparr>"

section \<open>Option resolution\<close>

lemma apply_options_foldl: "apply_options d doers = foldl (\<lambda>o' doer. doer o') d doers"
  by (induction doers arbitrary: d) simp_all

lemma apply_options_append: "apply_options d (xs @ ys) = apply_options (apply_options d xs) ys"
  by (induction xs arbitrary: d) simp_all

lemma apply_options_preserved:
  "(\<And>doer o'. doer \<in> set post \<Longrightarrow> field (doer o') = field o') \<Longrightarrow> field (apply_options d post) = field d"
  by (induction post arbitrary: d) simp_all

lemma New_Return_options:
  "New env sdk tr doers = (Return c, tr') \<Longrightarrow> options c = apply_options (Options_defaults env) doers"
  by (auto simp: New_def Let_def split: if_splits prod.splits outcome.splits)

lemma storage_New_Return:
  "storage_New env sdk tr doers = (Return sc, tr') \<Longrightarrow>
     s3_BaseEndpoint (Client sc) = Some (storage_Options.BaseEndpoint (apply_options (storage_Options_defaults env) doers))
   \<and> s3_Region (Client sc) = storage_Options.Region (apply_options (storage_Options_defaults env) doers)
   \<and> s3_UsePathStyle (Client sc) = storage_Options.UsePathStyle (apply_options (storage_Options_defaults env) doers)"
  by (auto simp: storage_New_def Let_def s3_NewFromConfig_def split: sum.splits option.splits if_splits)

lemma last_writer_wins:
  assumes w: "\<And>o'. field (w o') = v"
    and post: "\<And>doer o'. doer \<in> set post \<Longrightarrow> field (doer o') = field o'"
  shows "field (apply_options d (pre @ w # post)) = v"
proof -
  have split: "apply_options d (pre @ w # post) = apply_options (w (apply_options d pre)) post"
    by (simp add: apply_options_append)
  have kept: "field (apply_options (w (apply_options d pre)) post) = field (w (apply_options d pre))"
    by (rule apply_options_preserved) (rule post)
  show ?thesis
    unfolding split kept by (rule w)
qed

text \<open>
  Claim C1. For every sequence of option functions passed to \<^verbatim>\<open>storage.New\<close> or
  \<^verbatim>\<open>simplestorage.New\<close>, the resolved options are the defaults with each option function
  applied in argument order: the loop is the left fold; the client \<^verbatim>\<open>simplestorage.New\<close>
  returns holds that value, and the client \<^verbatim>\<open>storage.New\<close> returns is configured from it.
  So the last writer of a field wins: after an option that sets a field to \<open>v\<close>, followed
  only by options that leave that field alone, the field is \<open>v\<close>, whatever came before.
\<close>

theorem options_applied_in_argument_order:
  "apply_options d doers = foldl (\<lambda>o' doer. doer o') d doers
   \<and> (New env sdk tr ds = (Return c, tr') \<longrightarrow>
        options c = foldl (\<lambda>o' doer. doer o') (Options_defaults env) ds)
   \<and> (storage_New env sdk tr sds = (Return sc, tr'') \<longrightarrow>
        s3_BaseEndpoint (Client sc) =
          Some (storage_Options.BaseEndpoint (foldl (\<lambda>o' doer. doer o') (storage_Options_defaults env) sds))
        \<and> s3_Region (Client sc) =
          storage_Options.Region (foldl (\<lambda>o' doer. doer o') (storage_Options_defaults env) sds)
        \<and> s3_UsePathStyle (Client sc) =
          storage_Options.UsePathStyle (foldl (\<lambda>o' doer. doer o') (storage_Options_defaults env) sds))
   \<and> ((\<forall>o'. field (w o') = v) \<and> (\<forall>doer \<in> set post. \<forall>o'. field (doer o') = field o') \<longrightarrow>
        field (apply_options d (pre @ w # post)) = v)"
proof (intro conjI impI)
  show "apply_options d doers = foldl (\<lambda>o' doer. doer o') d doers"
    by (rule apply_options_foldl)
next
  assume "New env sdk tr ds = (Return c, tr')"
  then show "options c = foldl (\<lambda>o' doer. doer o') (Options_defaults env) ds"
    by (simp add: New_Return_options apply_options_foldl)
next
  assume h: "storage_New env sdk tr sds = (Return sc, tr'')"
  show "s3_BaseEndpoint (Client sc) =
          Some (storage_Options.BaseEndpoint (foldl (\<lambda>o' doer. doer o') (storage_Options_defaults env) sds))"
    using storage_New_Return [OF h] by (simp add: apply_options_foldl)
  show "s3_Region (Client sc) =
          storage_Options.Region (foldl (\<lambda>o' doer. doer o') (storage_Options_defaults env) sds)"
    using storage_New_Return [OF h] by (simp add: apply_options_foldl)
  show "s3_UsePathStyle (Client sc) =
          storage_Options.UsePathStyle (foldl (\<lambda>o' doer. doer o') (storage_Options_defaults env) sds)"
    using storage_New_Return [OF h] by (simp add: apply_options_foldl)
next
  assume h: "(\<forall>o'. field (w o') = v) \<and> (\<forall>doer \<in> set post. \<forall>o'. field (doer o') = field o')"
  show "field (apply_options d (pre @ w # post)) = v"
  proof (rule last_writer_wins)
    fix o' show "field (w o') = v" using h by blast
  next
    fix doer o' assume "doer \<in> set post"
    then show "field (doer o') = field o'" using h by blast
  qed
qed

lemma New_example:
  "New (\<lambda>v. '''') example_sdk [] [WithBucket ''a'', WithBucket ''b'', WithGlobalEndpoint]
     = (Return example_client, [LoadDefaultConfig])"
  by (simp add: New_def storage_New_def Options_defaults_def storage_Options_defaults_def
      WithBucket_def WithGlobalEndpoint_def GlobalEndpoint_def example_sdk_def example_client_def
      example_s3_Options_def example_config_def s3_NewFromConfig_def storage_WithRegion_def
      storage_WithPathStyle_def Let_def)

lemma storage_New_example:
  "storage_New (\<lambda>v. '''') example_sdk [] [storage_WithRegion ''eu'', storage_WithRegion ''auto'']
     = (Return \<lparr>Client = example_s3_Options\<rparr>, [LoadDefaultConfig])"
  by (simp add: storage_New_def storage_Options_defaults_def example_sdk_def
      example_s3_Options_def example_config_def s3_NewFromConfig_def storage_WithRegion_def Let_def)

text \<open>
  The theorem at a concrete input: the bucket is set twice and the last value is the one
  the client holds; the region is set twice and the last value configures the client.
\<close>

theorem options_applied_in_argument_order_witness:
  "New (\<lambda>v. '''') example_sdk [] [WithBucket ''a'', WithBucket ''b'', WithGlobalEndpoint]
     = (Return example_client, [LoadDefaultConfig])
   \<and> options example_client =
       foldl (\<lambda>o' doer. doer o') (Options_defaults (\<lambda>v. ''''))
         [WithBucket ''a'', WithBucket ''b'', WithGlobalEndpoint]
   \<and> storage_New (\<lambda>v. '''') example_sdk [] [storage_WithRegion ''eu'', storage_WithRegion ''auto'']
     = (Return \<lparr>Client = example_s3_Options\<rparr>, [LoadDefaultConfig])
   \<and> s3_Region (Client \<lparr>Client = example_s3_Options\<rparr>) =
       storage_Options.Region (foldl (\<lambda>o' doer. doer o') (storage_Options_defaults (\<lambda>v. ''''))
         [storage_WithRegion ''eu'', storage_WithRegion ''auto''])
   \<and> Options.BucketName
       (apply_options (Options_defaults (\<lambda>v. '''')) ([WithBucket ''a''] @ WithBucket ''b'' # [WithGlobalEndpoint]))
       = ''b''"
proof -
  note inst = options_applied_in_argument_order
    [of "Options_defaults (\<lambda>v. '''')" "[]" "\<lambda>v. ''''" example_sdk "[]"
        "[WithBucket ''a'', WithBucket ''b'', WithGlobalEndpoint]" example_client "[LoadDefaultConfig]"
        "[storage_WithRegion ''eu'', storage_WithRegion ''auto'']" "\<lparr>Client = example_s3_Options\<rparr>"
        "[LoadDefaultConfig]" Options.BucketName "WithBucket ''b''" "''b''" "[WithGlobalEndpoint]"
        "[WithBucket ''a'']"]
  have w: "\<forall>o'. Options.BucketName (WithBucket ''b'' o') = ''b''"
    by (simp add: WithBucket_def)
  have post: "\<forall>doer \<in> set [WithGlobalEndpoint]. \<forall>o'. Options.BucketName (doer o') = Options.BucketName o'"
    by (simp add: WithGlobalEndpoint_def)
  have resolved: "options example_client =
       foldl (\<lambda>o' doer. doer o') (Options_defaults (\<lambda>v. ''''))
         [WithBucket ''a'', WithBucket ''b'', WithGlobalEndpoint]"
    by (rule inst [THEN conjunct2, THEN conjunct1, THEN mp, OF New_example])
  have region: "s3_Region (Client \<lparr>Client = example_s3_Options\<rparr>) =
       storage_Options.Region (foldl (\<lambda>o' doer. doer o') (storage_Options_defaults (\<lambda>v. ''''))
         [storage_WithRegion ''eu'', storage_WithRegion ''auto''])"
    by (rule inst [THEN conjunct2, THEN conjunct2, THEN conjunct1, THEN mp, OF storage_New_example,
          THEN conjunct2, THEN conjunct1])
  have last: "Options.BucketName
       (apply_options (Options_defaults (\<lambda>v. '''')) ([WithBucket ''a''] @ WithBucket ''b'' # [WithGlobalEndpoint]))
       = ''b''"
    by (rule inst [THEN conjunct2, THEN conjunct2, THEN conjunct2, THEN mp, OF conjI [OF w post]])
  show ?thesis
    by (intro conjI) (rule New_example resolved storage_New_example region last)+
qed

section \<open>Construction without a bucket name\<close>

text \<open>
  Claim C5. When the resolved bucket name is empty, \<^verbatim>\<open>simplestorage.New\<close> fails with an
  error that \<^verbatim>\<open>errors.Is\<close> matches to \<^verbatim>\<open>ErrNoBucketName\<close>, and the record of SDK
  interactions is unchanged: not even the default configuration is loaded. The resolved
  name is empty in particular when the environment variable is unset or empty and no
  option turns an empty name into a non-empty one.
\<close>

theorem New_without_bucket_name:
  "(Options.BucketName (apply_options (Options_defaults env) doers) = '''' \<longrightarrow>
      New env sdk tr doers =
        (Fail (Errorf_w ''simplestorage: can't create client: '' (Join [Sentinel ErrNoBucketName])), tr)
      \<and> errors_Is (Errorf_w ''simplestorage: can't create client: '' (Join [Sentinel ErrNoBucketName]))
           ErrNoBucketName)
   \<and> (env ''TIGRIS_STORAGE_BUCKET'' = ''''
        \<and> (\<forall>doer \<in> set doers. \<forall>o'. Options.BucketName o' = '''' \<longrightarrow> Options.BucketName (doer o') = '''')
      \<longrightarrow> Options.BucketName (apply_options (Options_defaults env) doers) = '''')"
proof (intro conjI impI)
  assume "Options.BucketName (apply_options (Options_defaults env) doers) = ''''"
  then show "New env sdk tr doers =
        (Fail (Errorf_w ''simplestorage: can't create client: '' (Join [Sentinel ErrNoBucketName])), tr)"
    by (simp add: New_def Let_def)
next
  show "errors_Is (Errorf_w ''simplestorage: can't create client: '' (Join [Sentinel ErrNoBucketName]))
           ErrNoBucketName"
    by simp
next
  assume h: "env ''TIGRIS_STORAGE_BUCKET'' = ''''
        \<and> (\<forall>doer \<in> set doers. \<forall>o'. Options.BucketName o' = '''' \<longrightarrow> Options.BucketName (doer o') = '''')"
  have "Options.BucketName d = '''' \<Longrightarrow> Options.BucketName (apply_options d doers) = ''''" for d
    using h by (induction doers arbitrary: d) simp_all
  then show "Options.BucketName (apply_options (Options_defaults env) doers) = ''''"
    using h by (simp add: Options_defaults_def)
qed

text \<open>
  The theorem at a concrete input: nothing in the environment, a region option and an
  empty bucket option.
\<close>

theorem New_without_bucket_name_witness:
  "New (\<lambda>v. '''') example_sdk [] [WithRegion ''eu'', WithBucket '''']
     = (Fail (Errorf_w ''simplestorage: can't create client: '' (Join [Sentinel ErrNoBucketName])), [])
   \<and> errors_Is (Errorf_w ''simplestorage: can't create client: '' (Join [Sentinel ErrNoBucketName]))
        ErrNoBucketName
   \<and> Options.BucketName (apply_options (Options_defaults (\<lambda>v. '''')) [WithRegion ''eu'', WithBucket '''']) = ''''"
proof -
  have h: "(\<lambda>v. '''') ''TIGRIS_STORAGE_BUCKET'' = ''''
     \<and> (\<forall>doer \<in> set [WithRegion ''eu'', WithBucket ''''].
          \<forall>o'. Options.BucketName o' = '''' \<longrightarrow> Options.BucketName (doer o') = '''')"
    by (simp add: WithRegion_def WithBucket_def)
  note inst = New_without_bucket_name [of "\<lambda>v. ''''" "[WithRegion ''eu'', WithBucket '''']" example_sdk "[]"]
  have empty: "Options.BucketName
      (apply_options (Options_defaults (\<lambda>v. '''')) [WithRegion ''eu'', WithBucket '''']) = ''''"
    by (rule inst [THEN conjunct2, THEN mp, OF h])
  show ?thesis
    by (intro conjI) (rule inst [THEN conjunct1, THEN mp, OF empty, THEN conjunct1]
        inst [THEN conjunct1, THEN mp, OF empty, THEN conjunct2] empty)+
qed


section \<open>Presigned URLs\<close>

text \<open>
  Claim C2. \<^verbatim>\<open>PresignURL\<close> rejects every method other than exactly \<^verbatim>\<open>GET\<close>, \<^verbatim>\<open>PUT\<close> or
  \<^verbatim>\<open>DELETE\<close> with the unsupported-method error; with a supported method it rejects an
  empty key with the key-cannot-be-empty error; with a supported method and a key it
  rejects a zero or negative expiry with the invalid-expiry error. So one cause is
  reported, in the order method, key, expiry. In each rejection the record of SDK calls is
  unchanged and the result is the same for every backend, client and option list: nothing
  was sent and no option was resolved. With three valid inputs exactly one call is made.
\<close>

theorem PresignURL_validation:
  "(\<not> (method = ''GET'' \<or> method = ''PUT'' \<or> method = ''DELETE'') \<longrightarrow>
      PresignURL sdk c tr method key expiry opts = (Fail (UnsupportedMethod method), tr))
   \<and> ((method = ''GET'' \<or> method = ''PUT'' \<or> method = ''DELETE'') \<and> key = '''' \<longrightarrow>
      PresignURL sdk c tr method key expiry opts =
        (Fail (ErrorsNew ''simplestorage: key cannot be empty for presigned URL''), tr))
   \<and> ((method = ''GET'' \<or> method = ''PUT'' \<or> method = ''DELETE'') \<and> key \<noteq> '''' \<and> sint expiry \<le> 0 \<longrightarrow>
      PresignURL sdk c tr method key expiry opts = (Fail (InvalidExpiry expiry), tr))
   \<and> ((method = ''GET'' \<or> method = ''PUT'' \<or> method = ''DELETE'') \<and> key \<noteq> '''' \<and> 0 < sint expiry \<longrightarrow>
      length (snd (PresignURL sdk c tr method key expiry opts)) = Suc (length tr))"
proof (intro conjI impI)
  assume "\<not> (method = ''GET'' \<or> method = ''PUT'' \<or> method = ''DELETE'')"
  then show "PresignURL sdk c tr method key expiry opts = (Fail (UnsupportedMethod method), tr)"
    unfolding PresignURL_def by simp
next
  assume "(method = ''GET'' \<or> method = ''PUT'' \<or> method = ''DELETE'') \<and> key = ''''"
  then show "PresignURL sdk c tr method key expiry opts =
        (Fail (ErrorsNew ''simplestorage: key cannot be empty for presigned URL''), tr)"
    unfolding PresignURL_def by simp
next
  assume "(method = ''GET'' \<or> method = ''PUT'' \<or> method = ''DELETE'') \<and> key \<noteq> '''' \<and> sint expiry \<le> 0"
  then show "PresignURL sdk c tr method key expiry opts = (Fail (InvalidExpiry expiry), tr)"
    unfolding PresignURL_def by simp
next
  assume h: "(method = ''GET'' \<or> method = ''PUT'' \<or> method = ''DELETE'') \<and> key \<noteq> '''' \<and> 0 < sint expiry"
  then have e: "\<not> sint expiry \<le> 0" by simp
  show "length (snd (PresignURL sdk c tr method key expiry opts)) = Suc (length tr)"
    using h e unfolding PresignURL_def presignURLGet_def presignURLPut_def presignURLDelete_def
      s3_invoke_def Let_def
    by (auto split: sum.splits)
qed


text \<open>
  The theorem at concrete inputs: three invalid inputs report the method; an empty key and
  a zero expiry report the key; a negative expiry alone is reported; a valid request makes
  one call.
\<close>

theorem PresignURL_validation_witness:
  "PresignURL example_sdk example_client [] ''PATCH'' '''' 0 [] = (Fail (UnsupportedMethod ''PATCH''), [])
   \<and> PresignURL example_sdk example_client [] ''GET'' '''' 0 [] =
       (Fail (ErrorsNew ''simplestorage: key cannot be empty for presigned URL''), [])
   \<and> PresignURL example_sdk example_client [] ''PUT'' ''k'' (- 1) [] = (Fail (InvalidExpiry (- 1)), [])
   \<and> length (snd (PresignURL example_sdk example_client [] ''DELETE'' ''k'' 1 [])) = Suc (length ([] :: call list))"
proof -
  have m: "\<not> (''PATCH'' = ''GET'' \<or> ''PATCH'' = ''PUT'' \<or> ''PATCH'' = ''DELETE'')"
    by simp
  have k: "(''GET'' = ''GET'' \<or> ''GET'' = ''PUT'' \<or> ''GET'' = ''DELETE'') \<and> '''' = ''''"
    by simp
  have e: "(''PUT'' = ''GET'' \<or> ''PUT'' = ''PUT'' \<or> ''PUT'' = ''DELETE'') \<and> ''k'' \<noteq> ''''
            \<and> sint (- 1 :: int64) \<le> 0"
    by simp
  have v: "(''DELETE'' = ''GET'' \<or> ''DELETE'' = ''PUT'' \<or> ''DELETE'' = ''DELETE'') \<and> ''k'' \<noteq> ''''
            \<and> 0 < sint (1 :: int64)"
    by simp
  show ?thesis
    by (intro conjI)
      (rule PresignURL_validation [of "''PATCH''" _ _ _ _ _ _, THEN conjunct1, THEN mp, OF m]
        PresignURL_validation [of "''GET''" _ _ _ "''''" _ _, THEN conjunct2, THEN conjunct1,
          THEN mp, OF k]
        PresignURL_validation [of "''PUT''" _ _ _ "''k''" "- 1" _,
          THEN conjunct2, THEN conjunct2, THEN conjunct1, THEN mp, OF e]
        PresignURL_validation [of "''DELETE''" _ _ _ "''k''" 1 _,
          THEN conjunct2, THEN conjunct2, THEN conjunct2, THEN mp, OF v])+
qed

section \<open>Zero-value elision in Put\<close>

text \<open>
  Claim C6. For every object passed to \<^verbatim>\<open>Put\<close>, the one request sent carries no content
  type when the object's content type is the empty string and no content length when its
  size is zero, and carries exactly the object's content type and size otherwise. The
  other fields of the request are the resolved bucket, the object's key and its body.
\<close>

theorem Put_zero_value_elision:
  "snd (Put sdk c tr (Some ob) opts) =
     tr @ [S3_PutObject
             \<lparr>PutObjectInput.Bucket =
                Some (ClientOptions.BucketName (apply_options (ClientOptions_defaults (options c)) opts)),
              PutObjectInput.Key = Some (Object.Key ob),
              PutObjectInput.Body = Object.Body ob,
              PutObjectInput.ContentType =
                (if Object.ContentType ob = '''' then None else Some (Object.ContentType ob)),
              PutObjectInput.ContentLength =
                (if Object.Size ob = 0 then None else Some (Object.Size ob)),
              PutObjectInput.ContentDisposition = None\<rparr>
             (effective (cli c)
                (ClientOptions.S3Options (apply_options (ClientOptions_defaults (options c)) opts)))]"
proof -
  let ?o = "apply_options (ClientOptions_defaults (options c)) opts"
  let ?request = "S3_PutObject
             \<lparr>PutObjectInput.Bucket = Some (ClientOptions.BucketName ?o),
              PutObjectInput.Key = Some (Object.Key ob),
              PutObjectInput.Body = Object.Body ob,
              PutObjectInput.ContentType = raise '''' (Object.ContentType ob),
              PutObjectInput.ContentLength = raise 0 (Object.Size ob),
              PutObjectInput.ContentDisposition = None\<rparr>
             (effective (cli c) (ClientOptions.S3Options ?o))"
  have sent: "snd (Put sdk c tr (Some ob) opts) = tr @ [?request]"
  proof (cases "sdk_PutObject sdk tr ?request")
    case (Inl err)
    then show ?thesis by (simp add: Put_def Let_def s3_invoke_def)
  next
    case (Inr resp)
    then show ?thesis by (simp add: Put_def Let_def s3_invoke_def)
  qed
  have content_type: "raise '''' (Object.ContentType ob) =
      (if Object.ContentType ob = '''' then None else Some (Object.ContentType ob))"
    by (simp add: raise_def)
  have content_length: "raise 0 (Object.Size ob) =
      (if Object.Size ob = 0 then None else Some (Object.Size ob))"
    by (simp add: raise_def)
  show ?thesis
    unfolding sent content_type content_length by (rule refl)
qed

text \<open>
  The theorem at two objects: one with both fields at their zero values, one with the
  content type \<^verbatim>\<open>text/plain\<close> and the size 5.
\<close>

theorem Put_zero_value_elision_witness:
  "snd (Put example_sdk example_client [] (Some example_object) []) =
     [S3_PutObject
        \<lparr>PutObjectInput.Bucket = Some ''b'', PutObjectInput.Key = Some ''a.txt'',
         PutObjectInput.Body = Some ''hello'', PutObjectInput.ContentType = None,
         PutObjectInput.ContentLength = None, PutObjectInput.ContentDisposition = None\<rparr>
        example_s3_Options]
   \<and> snd (Put example_sdk example_client []
         (Some (example_object\<lparr>Object.ContentType := ''text/plain'', Object.Size := 5\<rparr>)) []) =
     [S3_PutObject
        \<lparr>PutObjectInput.Bucket = Some ''b'', PutObjectInput.Key = Some ''a.txt'',
         PutObjectInput.Body = Some ''hello'', PutObjectInput.ContentType = Some ''text/plain'',
         PutObjectInput.ContentLength = Some 5, PutObjectInput.ContentDisposition = None\<rparr>
        example_s3_Options]"
proof -
  have zero: "snd (Put example_sdk example_client [] (Some example_object) []) =
     [S3_PutObject
        \<lparr>PutObjectInput.Bucket = Some ''b'', PutObjectInput.Key = Some ''a.txt'',
         PutObjectInput.Body = Some ''hello'', PutObjectInput.ContentType = None,
         PutObjectInput.ContentLength = None, PutObjectInput.ContentDisposition = None\<rparr>
        example_s3_Options]"
    using Put_zero_value_elision [of example_sdk example_client "[]" example_object "[]"]
    by (simp add: example_client_def example_object_def ClientOptions_defaults_def effective_def)
  have given: "snd (Put example_sdk example_client []
         (Some (example_object\<lparr>Object.ContentType := ''text/plain'', Object.Size := 5\<rparr>)) []) =
     [S3_PutObject
        \<lparr>PutObjectInput.Bucket = Some ''b'', PutObjectInput.Key = Some ''a.txt'',
         PutObjectInput.Body = Some ''hello'', PutObjectInput.ContentType = Some ''text/plain'',
         PutObjectInput.ContentLength = Some 5, PutObjectInput.ContentDisposition = None\<rparr>
        example_s3_Options]"
    using Put_zero_value_elision [of example_sdk example_client "[]"
        "example_object\<lparr>Object.ContentType := ''text/plain'', Object.Size := 5\<rparr>" "[]"]
    by (simp add: example_client_def example_object_def ClientOptions_defaults_def effective_def)
  show ?thesis
    by (intro conjI) (rule zero given)+
qed

section \<open>Bucket information\<close>

lemma HeadBucketForkOrSnapshot_answer:
  "HeadBucketForkOrSnapshot sdk sc tr bucket s3opts =
     (case sdk_HeadBucket sdk tr (S3_HeadBucket bucket (effective sc s3opts)) of
        Inl err \<Rightarrow> Inl (FromSDK err)
      | Inr resp \<Rightarrow> Inl (ErrorsNew ''unexpected response type from middleware''),
      tr @ [S3_HeadBucket bucket (effective sc s3opts)])"
proof (cases "sdk_HeadBucket sdk tr (S3_HeadBucket bucket (effective sc s3opts))")
  case (Inl err)
  then show ?thesis
    by (simp add: HeadBucketForkOrSnapshot_def s3_invoke_def)
next
  case (Inr resp)
  have "as_nethttp_Response (GetRawResponse resp) = None"
    by (cases "RawResponse resp") (simp_all add: GetRawResponse_def)
  with Inr show ?thesis
    by (simp add: HeadBucketForkOrSnapshot_def s3_invoke_def)
qed

text \<open>
  Claim C7 has two halves. The first holds: for every non-empty bucket name, when the fork
  and snapshot metadata fetch (\<^verbatim>\<open>HeadBucketForkOrSnapshot\<close>) fails, \<^verbatim>\<open>GetBucketInfo\<close>
  returns a record in which only the name is set, and no error. The second, "when the
  metadata fetch succeeds, the returned record carries the four fork/snapshot fields from
  the response", is what \<^verbatim>\<open>GetBucketInfo\<close> is written to do, but the fetch cannot succeed:
  \<^verbatim>\<open>HeadBucketForkOrSnapshot\<close> asserts that the raw response is net/http's
  \<^verbatim>\<open>*http.Response\<close>, the SDK stores its own \<^verbatim>\<open>*smithyhttp.Response\<close>, and so every answer of
  the backend to \<^verbatim>\<open>HeadBucket\<close>, whatever headers it carries, ends in the error
  \<^verbatim>\<open>unexpected response type from middleware\<close>, which \<^verbatim>\<open>GetBucketInfo\<close> swallows. What the
  code does:
  \<^item> for every non-empty bucket name, every backend and every option list, \<^verbatim>\<open>GetBucketInfo\<close>
    makes the one \<^verbatim>\<open>HeadBucket\<close> call and returns the record in which only the name is
    set, and no error;
  \<^item> \<^verbatim>\<open>HeadBucketForkOrSnapshot\<close> never returns fork and snapshot metadata;
  \<^item> when the backend answers \<^verbatim>\<open>HeadBucket\<close> successfully, \<^verbatim>\<open>HeadBucketForkOrSnapshot\<close>
    returns the error \<^verbatim>\<open>unexpected response type from middleware\<close>; when the backend
    answers with an error, it returns that error.
\<close>

theorem GetBucketInfo_name_only:
  "(bucket \<noteq> '''' \<longrightarrow>
      GetBucketInfo sdk c tr bucket opts =
        (Return \<lparr>BucketInfo.Name = bucket, BucketInfo.Created = zero_time,
                 BucketInfo.SnapshotsEnabled = False, BucketInfo.IsForkParent = False,
                 BucketInfo.SourceBucket = '''', BucketInfo.SourceSnapshot = ''''\<rparr>,
         tr @ [S3_HeadBucket (Some bucket)
                 (effective (cli c) (BucketOptions.S3Options (apply_options BucketOptions_defaults opts)))]))
   \<and> (\<forall>info. fst (HeadBucketForkOrSnapshot sdk sc tr name s3opts) \<noteq> Inr info)
   \<and> (\<forall>resp. sdk_HeadBucket sdk tr (S3_HeadBucket name (effective sc s3opts)) = Inr resp \<longrightarrow>
         fst (HeadBucketForkOrSnapshot sdk sc tr name s3opts) =
           Inl (ErrorsNew ''unexpected response type from middleware''))
   \<and> (\<forall>err. sdk_HeadBucket sdk tr (S3_HeadBucket name (effective sc s3opts)) = Inl err \<longrightarrow>
         fst (HeadBucketForkOrSnapshot sdk sc tr name s3opts) = Inl (FromSDK err))"
proof (intro conjI impI allI)
  assume named: "bucket \<noteq> ''''"
  let ?s3opts = "BucketOptions.S3Options (apply_options BucketOptions_defaults opts)"
  show "GetBucketInfo sdk c tr bucket opts =
        (Return \<lparr>BucketInfo.Name = bucket, BucketInfo.Created = zero_time,
                 BucketInfo.SnapshotsEnabled = False, BucketInfo.IsForkParent = False,
                 BucketInfo.SourceBucket = '''', BucketInfo.SourceSnapshot = ''''\<rparr>,
         tr @ [S3_HeadBucket (Some bucket) (effective (cli c) ?s3opts)])"
  proof (cases "sdk_HeadBucket sdk tr (S3_HeadBucket (Some bucket) (effective (cli c) ?s3opts))")
    case (Inl err)
    with named show ?thesis
      by (simp add: GetBucketInfo_def Let_def HeadBucketForkOrSnapshot_answer)
  next
    case (Inr resp)
    with named show ?thesis
      by (simp add: GetBucketInfo_def Let_def HeadBucketForkOrSnapshot_answer)
  qed
next
  fix info
  show "fst (HeadBucketForkOrSnapshot sdk sc tr name s3opts) \<noteq> Inr info"
    by (simp add: HeadBucketForkOrSnapshot_answer split: sum.splits)
next
  fix resp
  assume "sdk_HeadBucket sdk tr (S3_HeadBucket name (effective sc s3opts)) = Inr resp"
  then show "fst (HeadBucketForkOrSnapshot sdk sc tr name s3opts) =
           Inl (ErrorsNew ''unexpected response type from middleware'')"
    by (simp add: HeadBucketForkOrSnapshot_answer)
next
  fix err
  assume "sdk_HeadBucket sdk tr (S3_HeadBucket name (effective sc s3opts)) = Inl err"
  then show "fst (HeadBucketForkOrSnapshot sdk sc tr name s3opts) = Inl (FromSDK err)"
    by (simp add: HeadBucketForkOrSnapshot_answer)
qed

text \<open>
  The theorem on a backend that answers \<^verbatim>\<open>HeadBucket\<close> with the headers of a fork with
  snapshots enabled: the record returned has none of them. And on a backend where every
  call fails.
\<close>

theorem GetBucketInfo_name_only_witness:
  "GetBucketInfo forked_bucket_sdk example_client [] ''b'' [] =
     (Return \<lparr>BucketInfo.Name = ''b'', BucketInfo.Created = zero_time,
              BucketInfo.SnapshotsEnabled = False, BucketInfo.IsForkParent = False,
              BucketInfo.SourceBucket = '''', BucketInfo.SourceSnapshot = ''''\<rparr>,
      [S3_HeadBucket (Some ''b'') example_s3_Options])
   \<and> fst (HeadBucketForkOrSnapshot forked_bucket_sdk (cli example_client) [] (Some ''b'') []) =
       Inl (ErrorsNew ''unexpected response type from middleware'')
   \<and> fst (HeadBucketForkOrSnapshot failing_sdk (cli example_client) [] (Some ''b'') []) =
       Inl (FromSDK (SDKError ''unreachable''))"
proof -
  have named: "''b'' \<noteq> ''''"
    by simp
  have answered: "sdk_HeadBucket forked_bucket_sdk []
      (S3_HeadBucket (Some ''b'') (effective (cli example_client) [])) =
      Inr \<lparr>RawResponse = Some fork_headers\<rparr>"
    by (simp add: forked_bucket_sdk_def)
  have refused: "sdk_HeadBucket failing_sdk []
      (S3_HeadBucket (Some ''b'') (effective (cli example_client) [])) = Inl (SDKError ''unreachable'')"
    by (simp add: failing_sdk_def)
  have options: "effective (cli example_client) (BucketOptions.S3Options BucketOptions_defaults) =
      example_s3_Options"
    by (simp add: effective_def example_client_def BucketOptions_defaults_def)
  have name_only: "GetBucketInfo forked_bucket_sdk example_client [] ''b'' [] =
     (Return \<lparr>BucketInfo.Name = ''b'', BucketInfo.Created = zero_time,
              BucketInfo.SnapshotsEnabled = False, BucketInfo.IsForkParent = False,
              BucketInfo.SourceBucket = '''', BucketInfo.SourceSnapshot = ''''\<rparr>,
      [S3_HeadBucket (Some ''b'') example_s3_Options])"
    using GetBucketInfo_name_only [of "''b''" forked_bucket_sdk example_client "[]" "[]",
        THEN conjunct1, THEN mp, OF named]
    by (simp add: options)
  have unexpected: "fst (HeadBucketForkOrSnapshot forked_bucket_sdk (cli example_client) [] (Some ''b'') []) =
       Inl (ErrorsNew ''unexpected response type from middleware'')"
    by (rule GetBucketInfo_name_only [THEN conjunct2, THEN conjunct2, THEN conjunct1, THEN spec,
          THEN mp, OF answered])
  have failed: "fst (HeadBucketForkOrSnapshot failing_sdk (cli example_client) [] (Some ''b'') []) =
       Inl (FromSDK (SDKError ''unreachable''))"
    by (rule GetBucketInfo_name_only [THEN conjunct2, THEN conjunct2, THEN conjunct2, THEN spec,
          THEN mp, OF refused])
  show ?thesis
    by (intro conjI) (rule name_only unexpected failed)+
qed

section \<open>Snapshot lists\<close>

text \<open>
  Claim C10. In every list \<^verbatim>\<open>ListBucketSnapshots\<close> returns, each entry has its version
  equal to its name and its bucket equal to the bucket asked for, and so has the list; the
  names are the names of the buckets the backend returned, the empty string where a name
  is absent.
\<close>

theorem ListBucketSnapshots_version_is_name:
  "ListBucketSnapshots sdk c tr bucket opts = (Return result, tr') \<longrightarrow>
     SnapshotList.Bucket result = bucket
   \<and> (\<forall>snap \<in> set (Snapshots result).
         SnapshotInfo.Version snap = SnapshotInfo.Name snap \<and> SnapshotInfo.Bucket snap = bucket)
   \<and> (\<exists>resp. sdk_ListBuckets sdk tr
                 (S3_ListBuckets None
                    (effective (cli c)
                       (BucketOptions.S3Options (apply_options BucketOptions_defaults opts)
                          @ [WithListSnapshots bucket]))) = Inr resp
         \<and> map SnapshotInfo.Name (Snapshots result) =
             map (\<lambda>b. lower (types_Bucket.Name b) '''') (ListBucketsOutput.Buckets resp))"
proof (intro impI)
  assume returned: "ListBucketSnapshots sdk c tr bucket opts = (Return result, tr')"
  let ?request = "S3_ListBuckets None
                    (effective (cli c)
                       (BucketOptions.S3Options (apply_options BucketOptions_defaults opts)
                          @ [WithListSnapshots bucket]))"
  from returned have name: "bucket \<noteq> ''''"
    by (auto simp: ListBucketSnapshots_def)
  with returned obtain resp where answered: "sdk_ListBuckets sdk tr ?request = Inr resp"
    and result: "result =
        \<lparr>Snapshots = map (\<lambda>b. \<lparr>SnapshotInfo.Name = lower (types_Bucket.Name b) '''',
                                   SnapshotInfo.Version = lower (types_Bucket.Name b) '''',
                                   SnapshotInfo.Created = lower (CreationDate b) zero_time,
                                   SnapshotInfo.Bucket = bucket\<rparr>) (ListBucketsOutput.Buckets resp),
         SnapshotList.Bucket = bucket\<rparr>"
    by (cases "sdk_ListBuckets sdk tr ?request")
      (auto simp: ListBucketSnapshots_def Let_def s3_invoke_def)
  have owner: "SnapshotList.Bucket result = bucket"
    by (simp add: result)
  have entries: "\<forall>snap \<in> set (Snapshots result).
         SnapshotInfo.Version snap = SnapshotInfo.Name snap \<and> SnapshotInfo.Bucket snap = bucket"
    by (auto simp: result)
  have names: "map SnapshotInfo.Name (Snapshots result) =
             map (\<lambda>b. lower (types_Bucket.Name b) '''') (ListBucketsOutput.Buckets resp)"
    by (simp add: result comp_def)
  from owner entries answered names
  show "SnapshotList.Bucket result = bucket
   \<and> (\<forall>snap \<in> set (Snapshots result).
         SnapshotInfo.Version snap = SnapshotInfo.Name snap \<and> SnapshotInfo.Bucket snap = bucket)
   \<and> (\<exists>resp. sdk_ListBuckets sdk tr ?request = Inr resp
         \<and> map SnapshotInfo.Name (Snapshots result) =
             map (\<lambda>b. lower (types_Bucket.Name b) '''') (ListBucketsOutput.Buckets resp))"
    by blast
qed


text \<open>
  The theorem on a backend that returns two entries, the second without a name.
\<close>

theorem ListBucketSnapshots_version_is_name_witness:
  "ListBucketSnapshots snapshots_sdk example_client [] ''b'' [] =
     (Return \<lparr>Snapshots =
                [\<lparr>SnapshotInfo.Name = ''1700000000'', SnapshotInfo.Version = ''1700000000'',
                  SnapshotInfo.Created = 1700000000, SnapshotInfo.Bucket = ''b''\<rparr>,
                 \<lparr>SnapshotInfo.Name = '''', SnapshotInfo.Version = '''',
                  SnapshotInfo.Created = zero_time, SnapshotInfo.Bucket = ''b''\<rparr>],
              SnapshotList.Bucket = ''b''\<rparr>,
      [S3_ListBuckets None (example_s3_Options\<lparr>APIOptions := [(''X-Tigris-Snapshot'', ''b'')]\<rparr>)])
   \<and> SnapshotList.Bucket
       \<lparr>Snapshots =
                [\<lparr>SnapshotInfo.Name = ''1700000000'', SnapshotInfo.Version = ''1700000000'',
                  SnapshotInfo.Created = 1700000000, SnapshotInfo.Bucket = ''b''\<rparr>,
                 \<lparr>SnapshotInfo.Name = '''', SnapshotInfo.Version = '''',
                  SnapshotInfo.Created = zero_time, SnapshotInfo.Bucket = ''b''\<rparr>],
              SnapshotList.Bucket = ''b''\<rparr> = ''b''"
proof -
  have listed: "ListBucketSnapshots snapshots_sdk example_client [] ''b'' [] =
     (Return \<lparr>Snapshots =
                [\<lparr>SnapshotInfo.Name = ''1700000000'', SnapshotInfo.Version = ''1700000000'',
                  SnapshotInfo.Created = 1700000000, SnapshotInfo.Bucket = ''b''\<rparr>,
                 \<lparr>SnapshotInfo.Name = '''', SnapshotInfo.Version = '''',
                  SnapshotInfo.Created = zero_time, SnapshotInfo.Bucket = ''b''\<rparr>],
              SnapshotList.Bucket = ''b''\<rparr>,
      [S3_ListBuckets None (example_s3_Options\<lparr>APIOptions := [(''X-Tigris-Snapshot'', ''b'')]\<rparr>)])"
    by (simp add: ListBucketSnapshots_def s3_invoke_def effective_def snapshots_sdk_def
        example_sdk_def example_client_def example_s3_Options_def BucketOptions_defaults_def
        WithListSnapshots_def WithHeader_def Let_def)
  show ?thesis
    by (intro conjI)
      (rule listed ListBucketSnapshots_version_is_name [THEN mp, OF listed, THEN conjunct1])+
qed


section \<open>Listings: the truncation flag and the token\<close>

lemma bucket_infos_length: "bucket_infos bs = Some infos \<Longrightarrow> length infos = length bs"
  by (induction bs arbitrary: infos) (auto split: option.splits)

lemma List_Return:
  assumes "List sdk c tr opts = (Return r, tr')"
  obtains resp where "sdk_ListObjectsV2 sdk tr (last tr') = Inr resp"
    and "HasMore r = lower (IsTruncated resp) False"
    and "ListResult.NextToken r = lower (NextContinuationToken resp) ''''"
    and "length (Items r) = length (Contents resp)"
  using assms unfolding List_def Let_def s3_invoke_def
  by (auto split: sum.splits)

lemma ListBuckets_Return:
  assumes "ListBuckets sdk c tr bopts = (Return bl, tr')"
  obtains resp where "sdk_ListBuckets sdk tr (last tr') = Inr resp"
    and "Truncated bl = (ListBucketsOutput.ContinuationToken resp \<noteq> None)"
    and "BucketList.NextToken bl = lower (ListBucketsOutput.ContinuationToken resp) ''''"
    and "length (BucketList.Buckets bl) = length (ListBucketsOutput.Buckets resp)"
proof -
  from assms obtain resp infos where resp: "sdk_ListBuckets sdk tr (last tr') = Inr resp"
    and infos: "bucket_infos (ListBucketsOutput.Buckets resp) = Some infos"
    and bl: "bl = \<lparr>BucketList.Buckets = infos,
                   BucketList.NextToken = lower (ListBucketsOutput.ContinuationToken resp) '''',
                   Truncated = (ListBucketsOutput.ContinuationToken resp \<noteq> None)\<rparr>"
    unfolding ListBuckets_def Let_def s3_invoke_def
    by (auto split: sum.splits option.splits)
  have "length infos = length (ListBucketsOutput.Buckets resp)"
    using infos by (rule bucket_infos_length)
  with resp bl show thesis
    by (intro that [of resp]) simp_all
qed

text \<open>
  Claim C3, as amended. The claim as stated, "for every response the truncation flag is true
  if and only if the returned token is non-empty, and an empty page has the flag false",
  fails: see the counterexample below. What holds for every response:
  \<^item> \<^verbatim>\<open>List\<close> copies the response's truncation flag (false when absent) into \<open>HasMore\<close>
    and its next continuation token (empty when absent) into \<open>NextToken\<close>, each on its
    own, and returns one item per object of the response, so an empty page gives an empty
    sequence; the flag is true exactly when the token is non-empty whenever that is so in
    the response;
  \<^item> \<^verbatim>\<open>ListBuckets\<close> sets \<open>Truncated\<close> exactly when the response carries a continuation
    token and \<open>NextToken\<close> to that token (empty when absent), and returns one entry per
    bucket of the response; a non-empty \<open>NextToken\<close> implies \<open>Truncated\<close>, and the two
    agree whenever the response carries no empty token.
\<close>

theorem listing_flags_follow_the_response:
  "(List sdk c tr opts = (Return r, tr') \<longrightarrow>
      (\<exists>resp. sdk_ListObjectsV2 sdk tr (last tr') = Inr resp))
   \<and> (List sdk c tr opts = (Return r, tr') \<and> sdk_ListObjectsV2 sdk tr (last tr') = Inr resp \<longrightarrow>
        HasMore r = lower (IsTruncated resp) False
        \<and> ListResult.NextToken r = lower (NextContinuationToken resp) ''''
        \<and> length (Items r) = length (Contents resp))
   \<and> (List sdk c tr opts = (Return r, tr') \<and> sdk_ListObjectsV2 sdk tr (last tr') = Inr resp
        \<and> lower (IsTruncated resp) False = (lower (NextContinuationToken resp) '''' \<noteq> '''') \<longrightarrow>
        HasMore r = (ListResult.NextToken r \<noteq> ''''))
   \<and> (ListBuckets sdk c tr bopts = (Return bl, tr'') \<longrightarrow>
        (\<exists>bresp. sdk_ListBuckets sdk tr (last tr'') = Inr bresp))
   \<and> (ListBuckets sdk c tr bopts = (Return bl, tr'') \<and> sdk_ListBuckets sdk tr (last tr'') = Inr bresp \<longrightarrow>
        Truncated bl = (ListBucketsOutput.ContinuationToken bresp \<noteq> None)
        \<and> BucketList.NextToken bl = lower (ListBucketsOutput.ContinuationToken bresp) ''''
        \<and> length (BucketList.Buckets bl) = length (ListBucketsOutput.Buckets bresp))
   \<and> (ListBuckets sdk c tr bopts = (Return bl, tr'') \<and> BucketList.NextToken bl \<noteq> '''' \<longrightarrow>
        Truncated bl)
   \<and> (ListBuckets sdk c tr bopts = (Return bl, tr'') \<and> sdk_ListBuckets sdk tr (last tr'') = Inr bresp
        \<and> ListBucketsOutput.ContinuationToken bresp \<noteq> Some '''' \<longrightarrow>
        Truncated bl = (BucketList.NextToken bl \<noteq> ''''))"
proof -
  have objects: "HasMore r = lower (IsTruncated resp) False
        \<and> ListResult.NextToken r = lower (NextContinuationToken resp) ''''
        \<and> length (Items r) = length (Contents resp)"
    if "List sdk c tr opts = (Return r, tr')" and "sdk_ListObjectsV2 sdk tr (last tr') = Inr resp"
    using that by (elim List_Return) simp
  have buckets: "Truncated bl = (ListBucketsOutput.ContinuationToken bresp \<noteq> None)
        \<and> BucketList.NextToken bl = lower (ListBucketsOutput.ContinuationToken bresp) ''''
        \<and> length (BucketList.Buckets bl) = length (ListBucketsOutput.Buckets bresp)"
    if "ListBuckets sdk c tr bopts = (Return bl, tr'')" and "sdk_ListBuckets sdk tr (last tr'') = Inr bresp"
    using that by (elim ListBuckets_Return) simp
  have token: "Truncated bl"
    if "ListBuckets sdk c tr bopts = (Return bl, tr'')" and "BucketList.NextToken bl \<noteq> ''''"
    using that by (elim ListBuckets_Return) (auto split: option.splits)
  have iff: "Truncated bl = (BucketList.NextToken bl \<noteq> '''')"
    if "ListBuckets sdk c tr bopts = (Return bl, tr'')" and "sdk_ListBuckets sdk tr (last tr'') = Inr bresp"
      and "ListBucketsOutput.ContinuationToken bresp \<noteq> Some ''''"
    using buckets [OF that(1,2)] that(3) by (cases "ListBucketsOutput.ContinuationToken bresp") simp_all
  show ?thesis
  proof (intro conjI impI)
    assume "List sdk c tr opts = (Return r, tr')"
    then show "\<exists>resp. sdk_ListObjectsV2 sdk tr (last tr') = Inr resp"
      by (elim List_Return) blast
  next
    assume "ListBuckets sdk c tr bopts = (Return bl, tr'')"
    then show "\<exists>bresp. sdk_ListBuckets sdk tr (last tr'') = Inr bresp"
      by (elim ListBuckets_Return) blast
  qed (use objects buckets token iff in simp_all)
qed

text \<open>
  The theorem on a backend that lists two of three keys and flags the listing as truncated
  with a token, and on a backend whose bucket listing is empty.
\<close>

lemma List_paged_example:
  "List (bucket_sdk 2 [''k1'', ''k2'', ''k3'']) example_client [] [WithPrefix ''k''] =
     (Return \<lparr>Items = [example_object\<lparr>Object.Bucket := ''b'', Object.Key := ''k1'', Object.Body := None\<rparr>,
                       example_object\<lparr>Object.Bucket := ''b'', Object.Key := ''k2'', Object.Body := None\<rparr>],
              ListResult.NextToken = ''next'', HasMore = True\<rparr>,
      [S3_ListObjectsV2
         \<lparr>ListObjectsV2Input.Bucket = Some ''b'', ListObjectsV2Input.Delimiter = None,
          ListObjectsV2Input.Prefix = Some ''k'', ListObjectsV2Input.MaxKeys = None,
          ListObjectsV2Input.ContinuationToken = None, ListObjectsV2Input.StartAfter = None\<rparr>
         example_s3_Options])"
  by (simp add: List_def s3_invoke_def effective_def bucket_sdk_def example_sdk_def key_object_def
      example_client_def example_object_def ClientOptions_defaults_def WithPrefix_def Let_def)

lemma ListBuckets_empty_example:
  "ListBuckets example_sdk example_client [] [] =
     (Return \<lparr>BucketList.Buckets = [], BucketList.NextToken = '''', Truncated = False\<rparr>,
      [S3_ListBuckets None example_s3_Options])"
  by (simp add: ListBuckets_def s3_invoke_def effective_def example_sdk_def example_client_def
      BucketOptions_defaults_def Let_def)

theorem listing_flags_follow_the_response_witness:
  "List (bucket_sdk 2 [''k1'', ''k2'', ''k3'']) example_client [] [WithPrefix ''k''] =
     (Return \<lparr>Items = [example_object\<lparr>Object.Bucket := ''b'', Object.Key := ''k1'', Object.Body := None\<rparr>,
                       example_object\<lparr>Object.Bucket := ''b'', Object.Key := ''k2'', Object.Body := None\<rparr>],
              ListResult.NextToken = ''next'', HasMore = True\<rparr>,
      [S3_ListObjectsV2
         \<lparr>ListObjectsV2Input.Bucket = Some ''b'', ListObjectsV2Input.Delimiter = None,
          ListObjectsV2Input.Prefix = Some ''k'', ListObjectsV2Input.MaxKeys = None,
          ListObjectsV2Input.ContinuationToken = None, ListObjectsV2Input.StartAfter = None\<rparr>
         example_s3_Options])
   \<and> HasMore \<lparr>Items = [example_object\<lparr>Object.Bucket := ''b'', Object.Key := ''k1'', Object.Body := None\<rparr>,
                       example_object\<lparr>Object.Bucket := ''b'', Object.Key := ''k2'', Object.Body := None\<rparr>],
              ListResult.NextToken = ''next'', HasMore = True\<rparr>
       = (ListResult.NextToken
           \<lparr>Items = [example_object\<lparr>Object.Bucket := ''b'', Object.Key := ''k1'', Object.Body := None\<rparr>,
                       example_object\<lparr>Object.Bucket := ''b'', Object.Key := ''k2'', Object.Body := None\<rparr>],
              ListResult.NextToken = ''next'', HasMore = True\<rparr> \<noteq> '''')
   \<and> ListBuckets example_sdk example_client [] [] =
     (Return \<lparr>BucketList.Buckets = [], BucketList.NextToken = '''', Truncated = False\<rparr>,
      [S3_ListBuckets None example_s3_Options])
   \<and> Truncated \<lparr>BucketList.Buckets = [], BucketList.NextToken = '''', Truncated = False\<rparr>
       = (BucketList.NextToken \<lparr>BucketList.Buckets = [], BucketList.NextToken = '''', Truncated = False\<rparr>
            \<noteq> '''')"
proof -
  have answered: "sdk_ListObjectsV2 (bucket_sdk 2 [''k1'', ''k2'', ''k3'']) []
      (last [S3_ListObjectsV2
         \<lparr>ListObjectsV2Input.Bucket = Some ''b'', ListObjectsV2Input.Delimiter = None,
          ListObjectsV2Input.Prefix = Some ''k'', ListObjectsV2Input.MaxKeys = None,
          ListObjectsV2Input.ContinuationToken = None, ListObjectsV2Input.StartAfter = None\<rparr>
         example_s3_Options])
      = Inr \<lparr>Contents = [key_object ''k1'', key_object ''k2''], IsTruncated = Some True,
             NextContinuationToken = Some ''next''\<rparr>"
    by (simp add: bucket_sdk_def)
  have consistent: "lower (IsTruncated \<lparr>Contents = [key_object ''k1'', key_object ''k2''],
           IsTruncated = Some True, NextContinuationToken = Some ''next''\<rparr>) False =
      (lower (NextContinuationToken \<lparr>Contents = [key_object ''k1'', key_object ''k2''],
           IsTruncated = Some True, NextContinuationToken = Some ''next''\<rparr>) '''' \<noteq> '''')"
    by simp
  have banswered: "sdk_ListBuckets example_sdk [] (last [S3_ListBuckets None example_s3_Options])
      = Inr \<lparr>ListBucketsOutput.Buckets = [], ListBucketsOutput.ContinuationToken = None\<rparr>"
    by (simp add: example_sdk_def)
  have btoken: "ListBucketsOutput.ContinuationToken
      \<lparr>ListBucketsOutput.Buckets = [], ListBucketsOutput.ContinuationToken = None\<rparr> \<noteq> Some ''''"
    by simp
  note inst = listing_flags_follow_the_response
  show ?thesis
    by (intro conjI)
      (rule List_paged_example ListBuckets_empty_example
        inst [THEN conjunct2, THEN conjunct2, THEN conjunct1, THEN mp,
          OF conjI [OF List_paged_example conjI [OF answered consistent]]]
        inst [THEN conjunct2, THEN conjunct2, THEN conjunct2, THEN conjunct2, THEN conjunct2,
          THEN conjunct2, THEN mp, OF conjI [OF ListBuckets_empty_example conjI [OF banswered btoken]]])+
qed

text \<open>
  The counterexample to claim C3 as stated: an object listing flagged as truncated, with no
  token and no objects, gives an empty sequence with \<open>HasMore\<close> true and \<open>NextToken\<close>
  empty; a bucket listing with an empty token gives \<open>Truncated\<close> true and \<open>NextToken\<close>
  empty.
\<close>

theorem truncation_flag_counterexample:
  "List flag_only_sdk example_client [] [] =
     (Return \<lparr>Items = [], ListResult.NextToken = '''', HasMore = True\<rparr>,
      [S3_ListObjectsV2
         \<lparr>ListObjectsV2Input.Bucket = Some ''b'', ListObjectsV2Input.Delimiter = None,
          ListObjectsV2Input.Prefix = None, ListObjectsV2Input.MaxKeys = None,
          ListObjectsV2Input.ContinuationToken = None, ListObjectsV2Input.StartAfter = None\<rparr>
         example_s3_Options])
   \<and> ListBuckets empty_token_sdk example_client [] [] =
     (Return \<lparr>BucketList.Buckets = [], BucketList.NextToken = '''', Truncated = True\<rparr>,
      [S3_ListBuckets None example_s3_Options])"
  by (simp add: List_def ListBuckets_def s3_invoke_def effective_def flag_only_sdk_def
      empty_token_sdk_def example_sdk_def example_client_def ClientOptions_defaults_def
      BucketOptions_defaults_def Let_def)


section \<open>Forced bucket deletion\<close>

lemma deletes_succeed_Cons:
  "deletes_succeed sdk c tr bucket o' (obj # rest) (Suc n) \<longleftrightarrow>
     sdk_DeleteObject sdk tr (delete_object_call c bucket o' obj) = Inr ()
     \<and> deletes_succeed sdk c (tr @ [delete_object_call c bucket o' obj]) bucket o' rest n"
proof -
  have "(\<forall>i < Suc n. P i) \<longleftrightarrow> P 0 \<and> (\<forall>i < n. P (Suc i))" for P
    using less_Suc_eq_0_disj by auto
  then show ?thesis
    unfolding deletes_succeed_def by simp
qed

lemma deletes_succeed_0 [simp]: "deletes_succeed sdk c tr bucket o' objs 0"
  by (simp add: deletes_succeed_def)

lemma delete_each_step:
  "delete_each sdk c tr bucket o' (obj # rest) =
     (case sdk_DeleteObject sdk tr (delete_object_call c bucket o' obj) of
        Inl err \<Rightarrow>
          (case types_Object.Key obj of
             None \<Rightarrow> (Panic, tr @ [delete_object_call c bucket o' obj])
           | Some k \<Rightarrow> (Fail (Errorf_w (''can't delete object '' @ k @ '': '') (FromSDK err)),
                        tr @ [delete_object_call c bucket o' obj]))
      | Inr out \<Rightarrow> delete_each sdk c (tr @ [delete_object_call c bucket o' obj]) bucket o' rest)"
  by (simp add: s3_invoke_def delete_object_call_def split: sum.splits option.splits)

lemma delete_each_all:
  "deletes_succeed sdk c tr bucket o' objs (length objs) \<Longrightarrow>
     delete_each sdk c tr bucket o' objs = (Return (), tr @ map (delete_object_call c bucket o') objs)"
proof (induction objs arbitrary: tr)
  case Nil
  then show ?case by simp
next
  case (Cons obj rest)
  from Cons.prems have first: "sdk_DeleteObject sdk tr (delete_object_call c bucket o' obj) = Inr ()"
    and others: "deletes_succeed sdk c (tr @ [delete_object_call c bucket o' obj]) bucket o' rest (length rest)"
    by (simp_all add: deletes_succeed_Cons)
  show ?case
    using Cons.IH [OF others] first by (simp add: delete_each_step del: delete_each.simps)
qed

lemma delete_each_first_failure:
  "i < length objs \<Longrightarrow> deletes_succeed sdk c tr bucket o' objs i \<Longrightarrow>
   sdk_DeleteObject sdk (tr @ map (delete_object_call c bucket o') (take i objs))
     (delete_object_call c bucket o' (objs ! i)) = Inl err \<Longrightarrow>
   delete_each sdk c tr bucket o' objs =
     ((case types_Object.Key (objs ! i) of
         None \<Rightarrow> Panic
       | Some k \<Rightarrow> Fail (Errorf_w (''can't delete object '' @ k @ '': '') (FromSDK err))),
      tr @ map (delete_object_call c bucket o') (take (Suc i) objs))"
proof (induction objs arbitrary: tr i)
  case Nil
  then show ?case by simp
next
  case (Cons obj rest)
  show ?case
  proof (cases i)
    case 0
    with Cons.prems show ?thesis
      by (simp add: delete_each_step del: delete_each.simps split: option.splits)
  next
    case (Suc j)
    from Cons.prems Suc have first: "sdk_DeleteObject sdk tr (delete_object_call c bucket o' obj) = Inr ()"
      and others: "deletes_succeed sdk c (tr @ [delete_object_call c bucket o' obj]) bucket o' rest j"
      and j: "j < length rest"
      and fails: "sdk_DeleteObject sdk
          ((tr @ [delete_object_call c bucket o' obj]) @ map (delete_object_call c bucket o') (take j rest))
          (delete_object_call c bucket o' (rest ! j)) = Inl err"
      by (simp_all add: deletes_succeed_Cons)
    show ?thesis
      using Cons.IH [OF j others fails] first Suc
      by (simp add: delete_each_step del: delete_each.simps)
  qed
qed

lemma delete_each_Return:
  "delete_each sdk c tr bucket o' objs = (Return u, tr') \<Longrightarrow>
     tr' = tr @ map (delete_object_call c bucket o') objs
     \<and> deletes_succeed sdk c tr bucket o' objs (length objs)"
proof (induction objs arbitrary: tr)
  case Nil
  then show ?case by simp
next
  case (Cons obj rest)
  from Cons.prems have first: "sdk_DeleteObject sdk tr (delete_object_call c bucket o' obj) = Inr ()"
    and rest: "delete_each sdk c (tr @ [delete_object_call c bucket o' obj]) bucket o' rest = (Return u, tr')"
    by (auto simp: delete_each_step simp del: delete_each.simps split: sum.splits option.splits)
  from Cons.IH [OF rest] first show ?case
    by (simp add: deletes_succeed_Cons)
qed

lemma emptyBucket_listed:
  "sdk_ListObjectsV2 sdk tr (list_objects_call c bucket o') = Inr listResp \<Longrightarrow>
     emptyBucket sdk c tr bucket o' =
       delete_each sdk c (tr @ [list_objects_call c bucket o']) bucket o' (Contents listResp)"
  by (simp add: emptyBucket_def s3_invoke_def list_objects_call_def)

lemma emptyBucket_list_failed:
  "sdk_ListObjectsV2 sdk tr (list_objects_call c bucket o') = Inl err \<Longrightarrow>
     emptyBucket sdk c tr bucket o' =
       (Fail (Errorf_w ''can't list objects: '' (FromSDK err)), tr @ [list_objects_call c bucket o'])"
  by (simp add: emptyBucket_def s3_invoke_def list_objects_call_def)

lemma delete_bucket_call_eq:
  "delete_bucket_call sdk c tr bucket o' =
     ((case sdk_DeleteBucket sdk tr (delete_bucket_request c bucket o') of
         Inl err \<Rightarrow> Fail (Errorf_w (''simplestorage: can't delete bucket '' @ bucket @ '': '') (FromSDK err))
       | Inr out \<Rightarrow> Return ()),
      tr @ [delete_bucket_request c bucket o'])"
  by (simp add: delete_bucket_call_def s3_invoke_def delete_bucket_request_def split: sum.splits)

lemma DeleteBucket_forced:
  "o' = apply_options BucketOptions_defaults opts \<Longrightarrow> bucket \<noteq> '''' \<Longrightarrow>
   BucketOptions.ForceDelete o' \<Longrightarrow>
     DeleteBucket sdk c tr bucket opts =
       (case emptyBucket sdk c tr bucket o' of
          (Fail err, tr') \<Rightarrow>
            (Fail (Errorf_w (''simplestorage: can't empty bucket '' @ bucket @ '': '') err), tr')
        | (Panic, tr') \<Rightarrow> (Panic, tr')
        | (Return u, tr') \<Rightarrow> delete_bucket_call sdk c tr' bucket o')"
  by (auto simp: DeleteBucket_def Let_def)

lemma no_bucket_delete_among_emptying_calls:
  "delete_bucket_request c bucket o' \<notin>
     set ([list_objects_call c bucket o'] @ map (delete_object_call c bucket o') objs)"
  by (auto simp: delete_bucket_request_def list_objects_call_def delete_object_call_def)

text \<open>
  A bucket of three objects on a backend that lists two keys per call, deleted by force:
  one list call and two object deletes are issued; the bucket delete follows and is
  refused, the bucket still holding the third object.
\<close>

lemma DeleteBucket_truncated_listing_example:
  "DeleteBucket (bucket_sdk 2 [''k1'', ''k2'', ''k3'']) example_client [] ''b'' [WithForceDelete] =
     (Fail (Errorf_w (''simplestorage: can't delete bucket '' @ ''b'' @ '': '')
              (FromSDK (SDKError ''BucketNotEmpty''))),
      [S3_ListObjectsV2
         \<lparr>ListObjectsV2Input.Bucket = Some ''b'', ListObjectsV2Input.Delimiter = None,
          ListObjectsV2Input.Prefix = None, ListObjectsV2Input.MaxKeys = None,
          ListObjectsV2Input.ContinuationToken = None, ListObjectsV2Input.StartAfter = None\<rparr>
         example_s3_Options,
       S3_DeleteObject (Some ''b'') (Some ''k1'') example_s3_Options,
       S3_DeleteObject (Some ''b'') (Some ''k2'') example_s3_Options,
       S3_DeleteBucket (Some ''b'') example_s3_Options])"
  by (simp add: DeleteBucket_def emptyBucket_def delete_bucket_call_def s3_invoke_def effective_def
      bucket_sdk_def example_sdk_def key_object_def example_client_def BucketOptions_defaults_def
      WithForceDelete_def Let_def)

text \<open>
  Claim C4 says that for a bucket of N objects the forced \<^verbatim>\<open>DeleteBucket\<close> issues one list
  call, then N object deletes in the order of the listing, then the bucket delete, and that
  the first failing delete aborts the sequence with an error. \<^verbatim>\<open>emptyBucket\<close>, which its
  comments describe as "deleting all objects" after it did "List all objects", makes one
  \<^verbatim>\<open>ListObjectsV2\<close> call and never follows \<^verbatim>\<open>IsTruncated\<close> or the continuation token: the
  objects it deletes are those of the first page of the listing, so on a bucket with more
  objects than one page holds fewer than N deletes precede the bucket delete. What the code
  does, for a non-empty bucket name and the force option set, with \<open>Contents listResp\<close> the
  objects the one list call returns, whatever the bucket holds beyond them:
  \<^item> when the listing succeeds and the delete of every listed object succeeds, the calls are
    exactly the list call, then one delete per listed object in the order of the listing,
    then the bucket delete, and the result is success exactly when the bucket delete
    succeeds;
  \<^item> whenever \<^verbatim>\<open>DeleteBucket\<close> returns success, the listing succeeded, the delete of every
    listed object succeeded and the calls are that sequence;
  \<^item> when the delete of the listed object number \<open>i\<close> is the first to fail, the calls stop
    with it and no bucket delete is among them; the result is the wrapped error when that
    object has a key, and a panic when it has none (the error message dereferences the nil
    key);
  \<^item> when the listing fails, it is the only call and its error is returned wrapped.
\<close>

theorem forced_delete_call_sequence:
  "(o' = apply_options BucketOptions_defaults opts \<and> bucket \<noteq> '''' \<and> BucketOptions.ForceDelete o'
      \<and> sdk_ListObjectsV2 sdk tr (list_objects_call c bucket o') = Inr listResp
      \<and> deletes_succeed sdk c (tr @ [list_objects_call c bucket o']) bucket o'
           (Contents listResp) (length (Contents listResp))
    \<longrightarrow> snd (DeleteBucket sdk c tr bucket opts) =
          tr @ [list_objects_call c bucket o'] @ map (delete_object_call c bucket o') (Contents listResp)
             @ [delete_bucket_request c bucket o']
        \<and> (fst (DeleteBucket sdk c tr bucket opts) = Return ()) =
          (sdk_DeleteBucket sdk
             (tr @ [list_objects_call c bucket o'] @ map (delete_object_call c bucket o') (Contents listResp))
             (delete_bucket_request c bucket o') = Inr ()))
   \<and> (o' = apply_options BucketOptions_defaults opts \<and> bucket \<noteq> '''' \<and> BucketOptions.ForceDelete o'
      \<and> DeleteBucket sdk c tr bucket opts = (Return (), tr')
    \<longrightarrow> (\<exists>listed. sdk_ListObjectsV2 sdk tr (list_objects_call c bucket o') = Inr listed
          \<and> deletes_succeed sdk c (tr @ [list_objects_call c bucket o']) bucket o'
               (Contents listed) (length (Contents listed))
          \<and> tr' = tr @ [list_objects_call c bucket o'] @ map (delete_object_call c bucket o') (Contents listed)
                     @ [delete_bucket_request c bucket o']))
   \<and> (o' = apply_options BucketOptions_defaults opts \<and> bucket \<noteq> '''' \<and> BucketOptions.ForceDelete o'
      \<and> sdk_ListObjectsV2 sdk tr (list_objects_call c bucket o') = Inr listResp
      \<and> i < length (Contents listResp)
      \<and> deletes_succeed sdk c (tr @ [list_objects_call c bucket o']) bucket o' (Contents listResp) i
      \<and> sdk_DeleteObject sdk
           ((tr @ [list_objects_call c bucket o']) @ map (delete_object_call c bucket o') (take i (Contents listResp)))
           (delete_object_call c bucket o' (Contents listResp ! i)) = Inl err
    \<longrightarrow> snd (DeleteBucket sdk c tr bucket opts) =
          tr @ [list_objects_call c bucket o']
             @ map (delete_object_call c bucket o') (take (Suc i) (Contents listResp))
        \<and> fst (DeleteBucket sdk c tr bucket opts) =
          (case types_Object.Key (Contents listResp ! i) of
             None \<Rightarrow> Panic
           | Some k \<Rightarrow>
               Fail (Errorf_w (''simplestorage: can't empty bucket '' @ bucket @ '': '')
                       (Errorf_w (''can't delete object '' @ k @ '': '') (FromSDK err))))
        \<and> delete_bucket_request c bucket o' \<notin>
            set ([list_objects_call c bucket o']
                   @ map (delete_object_call c bucket o') (take (Suc i) (Contents listResp))))
   \<and> (o' = apply_options BucketOptions_defaults opts \<and> bucket \<noteq> '''' \<and> BucketOptions.ForceDelete o'
      \<and> sdk_ListObjectsV2 sdk tr (list_objects_call c bucket o') = Inl err
    \<longrightarrow> DeleteBucket sdk c tr bucket opts =
          (Fail (Errorf_w (''simplestorage: can't empty bucket '' @ bucket @ '': '')
                   (Errorf_w ''can't list objects: '' (FromSDK err))),
           tr @ [list_objects_call c bucket o']))"
proof (intro conjI impI)
  assume h: "o' = apply_options BucketOptions_defaults opts \<and> bucket \<noteq> '''' \<and> BucketOptions.ForceDelete o'
      \<and> sdk_ListObjectsV2 sdk tr (list_objects_call c bucket o') = Inr listResp
      \<and> deletes_succeed sdk c (tr @ [list_objects_call c bucket o']) bucket o'
           (Contents listResp) (length (Contents listResp))"
  then have forced: "DeleteBucket sdk c tr bucket opts =
       (case emptyBucket sdk c tr bucket o' of
          (Fail err, tr') \<Rightarrow>
            (Fail (Errorf_w (''simplestorage: can't empty bucket '' @ bucket @ '': '') err), tr')
        | (Panic, tr') \<Rightarrow> (Panic, tr')
        | (Return u, tr') \<Rightarrow> delete_bucket_call sdk c tr' bucket o')"
    by (intro DeleteBucket_forced) blast+
  from h have listed: "sdk_ListObjectsV2 sdk tr (list_objects_call c bucket o') = Inr listResp"
    and ok: "deletes_succeed sdk c (tr @ [list_objects_call c bucket o']) bucket o'
           (Contents listResp) (length (Contents listResp))"
    by blast+
  have emptied: "emptyBucket sdk c tr bucket o' =
      (Return (), (tr @ [list_objects_call c bucket o'])
                    @ map (delete_object_call c bucket o') (Contents listResp))"
    using delete_each_all [OF ok] by (simp add: emptyBucket_listed [OF listed])
  show "snd (DeleteBucket sdk c tr bucket opts) =
          tr @ [list_objects_call c bucket o'] @ map (delete_object_call c bucket o') (Contents listResp)
             @ [delete_bucket_request c bucket o']"
    unfolding forced emptied by (simp add: delete_bucket_call_eq)
  show "(fst (DeleteBucket sdk c tr bucket opts) = Return ()) =
          (sdk_DeleteBucket sdk
             (tr @ [list_objects_call c bucket o'] @ map (delete_object_call c bucket o') (Contents listResp))
             (delete_bucket_request c bucket o') = Inr ())"
    unfolding forced emptied by (simp add: delete_bucket_call_eq split: sum.splits)
next
  assume h: "o' = apply_options BucketOptions_defaults opts \<and> bucket \<noteq> '''' \<and> BucketOptions.ForceDelete o'
      \<and> DeleteBucket sdk c tr bucket opts = (Return (), tr')"
  then have forced: "DeleteBucket sdk c tr bucket opts =
       (case emptyBucket sdk c tr bucket o' of
          (Fail err, tr') \<Rightarrow>
            (Fail (Errorf_w (''simplestorage: can't empty bucket '' @ bucket @ '': '') err), tr')
        | (Panic, tr') \<Rightarrow> (Panic, tr')
        | (Return u, tr') \<Rightarrow> delete_bucket_call sdk c tr' bucket o')"
    by (intro DeleteBucket_forced) blast+
  from h have returned: "DeleteBucket sdk c tr bucket opts = (Return (), tr')"
    by blast
  from returned [unfolded forced] obtain mid where emptied: "emptyBucket sdk c tr bucket o' = (Return (), mid)"
    and final: "delete_bucket_call sdk c mid bucket o' = (Return (), tr')"
    by (auto split: prod.splits outcome.splits)
  from emptied obtain listed where listed: "sdk_ListObjectsV2 sdk tr (list_objects_call c bucket o') = Inr listed"
    by (cases "sdk_ListObjectsV2 sdk tr (list_objects_call c bucket o')")
      (simp_all add: emptyBucket_list_failed)
  from emptied have loop: "delete_each sdk c (tr @ [list_objects_call c bucket o']) bucket o'
      (Contents listed) = (Return (), mid)"
    by (simp add: emptyBucket_listed [OF listed])
  note looped = delete_each_Return [OF loop]
  from final have "tr' = mid @ [delete_bucket_request c bucket o']"
    by (simp add: delete_bucket_call_eq)
  with looped listed show "\<exists>listed. sdk_ListObjectsV2 sdk tr (list_objects_call c bucket o') = Inr listed
          \<and> deletes_succeed sdk c (tr @ [list_objects_call c bucket o']) bucket o'
               (Contents listed) (length (Contents listed))
          \<and> tr' = tr @ [list_objects_call c bucket o'] @ map (delete_object_call c bucket o') (Contents listed)
                     @ [delete_bucket_request c bucket o']"
    by (intro exI [of _ listed]) simp
next
  assume h: "o' = apply_options BucketOptions_defaults opts \<and> bucket \<noteq> '''' \<and> BucketOptions.ForceDelete o'
      \<and> sdk_ListObjectsV2 sdk tr (list_objects_call c bucket o') = Inr listResp
      \<and> i < length (Contents listResp)
      \<and> deletes_succeed sdk c (tr @ [list_objects_call c bucket o']) bucket o' (Contents listResp) i
      \<and> sdk_DeleteObject sdk
           ((tr @ [list_objects_call c bucket o']) @ map (delete_object_call c bucket o') (take i (Contents listResp)))
           (delete_object_call c bucket o' (Contents listResp ! i)) = Inl err"
  then have forced: "DeleteBucket sdk c tr bucket opts =
       (case emptyBucket sdk c tr bucket o' of
          (Fail err, tr') \<Rightarrow>
            (Fail (Errorf_w (''simplestorage: can't empty bucket '' @ bucket @ '': '') err), tr')
        | (Panic, tr') \<Rightarrow> (Panic, tr')
        | (Return u, tr') \<Rightarrow> delete_bucket_call sdk c tr' bucket o')"
    by (intro DeleteBucket_forced) blast+
  from h have listed: "sdk_ListObjectsV2 sdk tr (list_objects_call c bucket o') = Inr listResp"
    and i: "i < length (Contents listResp)"
    and before: "deletes_succeed sdk c (tr @ [list_objects_call c bucket o']) bucket o' (Contents listResp) i"
    and refused: "sdk_DeleteObject sdk
           ((tr @ [list_objects_call c bucket o']) @ map (delete_object_call c bucket o') (take i (Contents listResp)))
           (delete_object_call c bucket o' (Contents listResp ! i)) = Inl err"
    by blast+
  have emptied: "emptyBucket sdk c tr bucket o' =
     ((case types_Object.Key (Contents listResp ! i) of
         None \<Rightarrow> Panic
       | Some k \<Rightarrow> Fail (Errorf_w (''can't delete object '' @ k @ '': '') (FromSDK err))),
      (tr @ [list_objects_call c bucket o'])
        @ map (delete_object_call c bucket o') (take (Suc i) (Contents listResp)))"
    using delete_each_first_failure [OF i before refused] by (simp add: emptyBucket_listed [OF listed])
  show "snd (DeleteBucket sdk c tr bucket opts) =
          tr @ [list_objects_call c bucket o']
             @ map (delete_object_call c bucket o') (take (Suc i) (Contents listResp))"
    unfolding forced emptied by (simp split: option.splits)
  show "fst (DeleteBucket sdk c tr bucket opts) =
          (case types_Object.Key (Contents listResp ! i) of
             None \<Rightarrow> Panic
           | Some k \<Rightarrow>
               Fail (Errorf_w (''simplestorage: can't empty bucket '' @ bucket @ '': '')
                       (Errorf_w (''can't delete object '' @ k @ '': '') (FromSDK err))))"
    unfolding forced emptied by (simp split: option.splits)
  show "delete_bucket_request c bucket o' \<notin>
            set ([list_objects_call c bucket o']
                   @ map (delete_object_call c bucket o') (take (Suc i) (Contents listResp)))"
    by (rule no_bucket_delete_among_emptying_calls)
next
  assume h: "o' = apply_options BucketOptions_defaults opts \<and> bucket \<noteq> '''' \<and> BucketOptions.ForceDelete o'
      \<and> sdk_ListObjectsV2 sdk tr (list_objects_call c bucket o') = Inl err"
  then have forced: "DeleteBucket sdk c tr bucket opts =
       (case emptyBucket sdk c tr bucket o' of
          (Fail err, tr') \<Rightarrow>
            (Fail (Errorf_w (''simplestorage: can't empty bucket '' @ bucket @ '': '') err), tr')
        | (Panic, tr') \<Rightarrow> (Panic, tr')
        | (Return u, tr') \<Rightarrow> delete_bucket_call sdk c tr' bucket o')"
    by (intro DeleteBucket_forced) blast+
  from h have failed: "sdk_ListObjectsV2 sdk tr (list_objects_call c bucket o') = Inl err"
    by blast
  show "DeleteBucket sdk c tr bucket opts =
          (Fail (Errorf_w (''simplestorage: can't empty bucket '' @ bucket @ '': '')
                   (Errorf_w ''can't list objects: '' (FromSDK err))),
           tr @ [list_objects_call c bucket o'])"
    unfolding forced by (simp add: emptyBucket_list_failed [OF failed])
qed

lemma forced_options_example:
  "BucketOptions_defaults\<lparr>BucketOptions.ForceDelete := True\<rparr> =
     apply_options BucketOptions_defaults [WithForceDelete]"
  by (simp add: WithForceDelete_def)

text \<open>
  The theorem on a bucket of three keys of which the backend lists two per call: two
  deletes are issued, not three, and the result is not success. Then on the same bucket
  listed in full, and on it when the delete of the second key is refused.
\<close>

theorem forced_delete_call_sequence_witness:
  "snd (DeleteBucket (bucket_sdk 2 [''k1'', ''k2'', ''k3'']) example_client [] ''b'' [WithForceDelete]) =
     [list_objects_call example_client ''b'' (BucketOptions_defaults\<lparr>BucketOptions.ForceDelete := True\<rparr>),
      delete_object_call example_client ''b'' (BucketOptions_defaults\<lparr>BucketOptions.ForceDelete := True\<rparr>)
        (key_object ''k1''),
      delete_object_call example_client ''b'' (BucketOptions_defaults\<lparr>BucketOptions.ForceDelete := True\<rparr>)
        (key_object ''k2''),
      delete_bucket_request example_client ''b'' (BucketOptions_defaults\<lparr>BucketOptions.ForceDelete := True\<rparr>)]
   \<and> fst (DeleteBucket (bucket_sdk 2 [''k1'', ''k2'', ''k3'']) example_client [] ''b'' [WithForceDelete]) \<noteq>
       Return ()
   \<and> snd (DeleteBucket (bucket_sdk 1000 [''k1'', ''k2'', ''k3'']) example_client [] ''b'' [WithForceDelete]) =
     [list_objects_call example_client ''b'' (BucketOptions_defaults\<lparr>BucketOptions.ForceDelete := True\<rparr>),
      delete_object_call example_client ''b'' (BucketOptions_defaults\<lparr>BucketOptions.ForceDelete := True\<rparr>)
        (key_object ''k1''),
      delete_object_call example_client ''b'' (BucketOptions_defaults\<lparr>BucketOptions.ForceDelete := True\<rparr>)
        (key_object ''k2''),
      delete_object_call example_client ''b'' (BucketOptions_defaults\<lparr>BucketOptions.ForceDelete := True\<rparr>)
        (key_object ''k3''),
      delete_bucket_request example_client ''b'' (BucketOptions_defaults\<lparr>BucketOptions.ForceDelete := True\<rparr>)]
   \<and> snd (DeleteBucket (locked_key_sdk [''k1'', ''k2'', ''k3''] ''k2'') example_client [] ''b''
           [WithForceDelete]) =
     [list_objects_call example_client ''b'' (BucketOptions_defaults\<lparr>BucketOptions.ForceDelete := True\<rparr>),
      delete_object_call example_client ''b'' (BucketOptions_defaults\<lparr>BucketOptions.ForceDelete := True\<rparr>)
        (key_object ''k1''),
      delete_object_call example_client ''b'' (BucketOptions_defaults\<lparr>BucketOptions.ForceDelete := True\<rparr>)
        (key_object ''k2'')]
   \<and> fst (DeleteBucket (locked_key_sdk [''k1'', ''k2'', ''k3''] ''k2'') example_client [] ''b''
           [WithForceDelete]) =
     Fail (Errorf_w (''simplestorage: can't empty bucket '' @ ''b'' @ '': '')
             (Errorf_w (''can't delete object '' @ ''k2'' @ '': '') (FromSDK (SDKError ''AccessDenied''))))"
proof -
  let ?o = "BucketOptions_defaults\<lparr>BucketOptions.ForceDelete := True\<rparr>"
  let ?objs = "[key_object ''k1'', key_object ''k2'', key_object ''k3'']"
  let ?page = "\<lparr>Contents = ?objs, IsTruncated = Some False, NextContinuationToken = None\<rparr>"
  let ?first = "\<lparr>Contents = [key_object ''k1'', key_object ''k2''], IsTruncated = Some True,
                 NextContinuationToken = Some ''next''\<rparr>"
  have name: "''b'' \<noteq> ''''"
    by simp
  have force: "BucketOptions.ForceDelete ?o"
    by simp
  have first_page: "sdk_ListObjectsV2 (bucket_sdk 2 [''k1'', ''k2'', ''k3'']) []
      (list_objects_call example_client ''b'' ?o) = Inr ?first"
    by (simp add: bucket_sdk_def)
  have first_page_deleted: "deletes_succeed (bucket_sdk 2 [''k1'', ''k2'', ''k3'']) example_client
      ([] @ [list_objects_call example_client ''b'' ?o]) ''b'' ?o (Contents ?first) (length (Contents ?first))"
    by (simp add: deletes_succeed_Cons bucket_sdk_def example_sdk_def)
  have not_empty: "sdk_DeleteBucket (bucket_sdk 2 [''k1'', ''k2'', ''k3''])
      ([] @ [list_objects_call example_client ''b'' ?o]
          @ map (delete_object_call example_client ''b'' ?o) (Contents ?first))
      (delete_bucket_request example_client ''b'' ?o) \<noteq> Inr ()"
    by (simp add: bucket_sdk_def list_objects_call_def delete_object_call_def key_object_def)
  have listed: "sdk_ListObjectsV2 (bucket_sdk 1000 [''k1'', ''k2'', ''k3'']) []
      (list_objects_call example_client ''b'' ?o) = Inr ?page"
    by (simp add: bucket_sdk_def)
  have all_deleted: "deletes_succeed (bucket_sdk 1000 [''k1'', ''k2'', ''k3'']) example_client
      ([] @ [list_objects_call example_client ''b'' ?o]) ''b'' ?o (Contents ?page) (length (Contents ?page))"
    by (simp add: deletes_succeed_Cons bucket_sdk_def example_sdk_def)
  have listed': "sdk_ListObjectsV2 (locked_key_sdk [''k1'', ''k2'', ''k3''] ''k2'') []
      (list_objects_call example_client ''b'' ?o) = Inr ?page"
    by (simp add: locked_key_sdk_def bucket_sdk_def)
  have second: "1 < length (Contents ?page)"
    by simp
  have first_deleted: "deletes_succeed (locked_key_sdk [''k1'', ''k2'', ''k3''] ''k2'') example_client
      ([] @ [list_objects_call example_client ''b'' ?o]) ''b'' ?o (Contents ?page) 1"
    by (simp add: deletes_succeed_Cons locked_key_sdk_def delete_object_call_def key_object_def)
  have refused: "sdk_DeleteObject (locked_key_sdk [''k1'', ''k2'', ''k3''] ''k2'')
      (([] @ [list_objects_call example_client ''b'' ?o])
         @ map (delete_object_call example_client ''b'' ?o) (take 1 (Contents ?page)))
      (delete_object_call example_client ''b'' ?o (Contents ?page ! 1)) = Inl (SDKError ''AccessDenied'')"
    by (simp add: locked_key_sdk_def delete_object_call_def key_object_def)
  note truncated = forced_delete_call_sequence
    [of ?o "[WithForceDelete]" "''b''" "bucket_sdk 2 [''k1'', ''k2'', ''k3'']" "[]" example_client ?first,
      THEN conjunct1, THEN mp,
      OF conjI [OF forced_options_example conjI [OF name conjI [OF force
        conjI [OF first_page first_page_deleted]]]]]
  note emptied = forced_delete_call_sequence
    [of ?o "[WithForceDelete]" "''b''" "bucket_sdk 1000 [''k1'', ''k2'', ''k3'']" "[]" example_client ?page,
      THEN conjunct1, THEN mp,
      OF conjI [OF forced_options_example conjI [OF name conjI [OF force conjI [OF listed all_deleted]]]],
      THEN conjunct1]
  note aborted = forced_delete_call_sequence
    [of ?o "[WithForceDelete]" "''b''" "locked_key_sdk [''k1'', ''k2'', ''k3''] ''k2''" "[]" example_client
        ?page _ 1 "SDKError ''AccessDenied''",
      THEN conjunct2, THEN conjunct2, THEN conjunct1, THEN mp,
      OF conjI [OF forced_options_example conjI [OF name conjI [OF force conjI [OF listed'
        conjI [OF second conjI [OF first_deleted refused]]]]]]]
  show ?thesis
  proof (intro conjI)
    show "snd (DeleteBucket (bucket_sdk 2 [''k1'', ''k2'', ''k3'']) example_client [] ''b'' [WithForceDelete]) =
     [list_objects_call example_client ''b'' ?o,
      delete_object_call example_client ''b'' ?o (key_object ''k1''),
      delete_object_call example_client ''b'' ?o (key_object ''k2''),
      delete_bucket_request example_client ''b'' ?o]"
      using truncated [THEN conjunct1] by simp
    show "fst (DeleteBucket (bucket_sdk 2 [''k1'', ''k2'', ''k3'']) example_client [] ''b'' [WithForceDelete]) \<noteq>
       Return ()"
      using truncated [THEN conjunct2] not_empty by blast
    show "snd (DeleteBucket (bucket_sdk 1000 [''k1'', ''k2'', ''k3'']) example_client [] ''b'' [WithForceDelete]) =
     [list_objects_call example_client ''b'' ?o,
      delete_object_call example_client ''b'' ?o (key_object ''k1''),
      delete_object_call example_client ''b'' ?o (key_object ''k2''),
      delete_object_call example_client ''b'' ?o (key_object ''k3''),
      delete_bucket_request example_client ''b'' ?o]"
      using emptied by simp
    show "snd (DeleteBucket (locked_key_sdk [''k1'', ''k2'', ''k3''] ''k2'') example_client [] ''b''
           [WithForceDelete]) =
     [list_objects_call example_client ''b'' ?o,
      delete_object_call example_client ''b'' ?o (key_object ''k1''),
      delete_object_call example_client ''b'' ?o (key_object ''k2'')]"
      using aborted [THEN conjunct1] by simp
    show "fst (DeleteBucket (locked_key_sdk [''k1'', ''k2'', ''k3''] ''k2'') example_client [] ''b''
           [WithForceDelete]) =
     Fail (Errorf_w (''simplestorage: can't empty bucket '' @ ''b'' @ '': '')
             (Errorf_w (''can't delete object '' @ ''k2'' @ '': '') (FromSDK (SDKError ''AccessDenied''))))"
      using aborted [THEN conjunct2, THEN conjunct1] by (simp add: key_object_def)
  qed
qed


section \<open>The take-snapshot header\<close>

lemma upperhex_digits:
  "list_all (\<lambda>n. unhex (upperhex ! n) = Some n \<and> \<not> shouldEscape (upperhex ! n)) [0..<16]"
  by code_simp

lemma unhex_upperhex: "n < 16 \<Longrightarrow> unhex (upperhex ! n) = Some n"
  using upperhex_digits by (simp add: list_all_iff)

lemma upperhex_unreserved: "n < 16 \<Longrightarrow> \<not> shouldEscape (upperhex ! n)"
  using upperhex_digits by (simp add: list_all_iff)

lemma hex_digits_of_char:
  "(of_char c :: nat) div 16 < 16" "(of_char c :: nat) mod 16 < 16"
proof -
  have "(of_char c :: nat) < 16 * 16"
    using nat_of_char_less_256 [of c] by simp
  then show "(of_char c :: nat) div 16 < 16"
    by (rule less_mult_imp_div_less)
  show "(of_char c :: nat) mod 16 < 16"
    by simp
qed

lemma unreserved_not_special:
  "\<not> shouldEscape c \<Longrightarrow> c \<noteq> CHR ''%'' \<and> c \<noteq> CHR ''+'' \<and> c \<noteq> CHR '' '' \<and> c \<noteq> CHR '';''
     \<and> (of_char c :: nat) < 128"
  by (auto simp: shouldEscape_def Let_def split: if_splits)

lemma escape_byte_chars:
  "ch \<in> set (escape_byte c) \<Longrightarrow> \<not> shouldEscape ch \<or> ch = CHR ''+'' \<or> ch = CHR ''%''"
  using upperhex_unreserved [OF hex_digits_of_char(1) [of c]]
    upperhex_unreserved [OF hex_digits_of_char(2) [of c]]
  by (auto simp: escape_byte_def split: if_splits)

lemma QueryEscape_chars:
  "ch \<in> set (QueryEscape s) \<Longrightarrow> \<not> shouldEscape ch \<or> ch = CHR ''+'' \<or> ch = CHR ''%''"
  by (auto simp: QueryEscape_def dest: escape_byte_chars)

lemma QueryUnescape_escape_byte:
  "QueryUnescape (escape_byte c @ rest) = map_option ((#) c) (QueryUnescape rest)"
proof (cases "c = CHR '' ''")
  case True
  then show ?thesis by (simp add: escape_byte_def)
next
  case space: False
  show ?thesis
  proof (cases "shouldEscape c")
    case True
    have "char_of ((of_char c :: nat) div 16 * 16 + (of_char c :: nat) mod 16) = c"
      by simp
    with True space show ?thesis
      by (simp add: escape_byte_def unhex_upperhex hex_digits_of_char)
  next
    case False
    with space unreserved_not_special [OF False] show ?thesis
      by (simp add: escape_byte_def)
  qed
qed

lemma QueryUnescape_QueryEscape: "QueryUnescape (QueryEscape s) = Some s"
proof (induction s)
  case Nil
  then show ?case by (simp add: QueryEscape_def)
next
  case (Cons c s)
  have "QueryEscape (c # s) = escape_byte c @ QueryEscape s"
    by (simp add: QueryEscape_def)
  with Cons show ?case
    by (simp add: QueryUnescape_escape_byte)
qed

lemma APIOptions_apply_options_WithHeader:
  "apply_options base (opts @ [WithHeader key val]) =
     (apply_options base opts)\<lparr>APIOptions := APIOptions (apply_options base opts) @ [(key, val)]\<rparr>"
proof (induction opts arbitrary: base)
  case Nil
  then show ?case by (simp add: WithHeader_def)
next
  case (Cons f fs)
  then show ?case by simp
qed

text \<open>
  Claim C9. For every description, creating a snapshot issues exactly one bucket-creation
  call, and that call carries, after the headers of the caller's options, the header
  \<^verbatim>\<open>X-Tigris-Snapshot\<close> with the value \<^verbatim>\<open>true; name=\<close> followed by the query-escaped
  description. This holds for the storage client's method and, for a non-empty bucket name,
  for the simplified client's. The escaped description consists of letters, digits,
  \<^verbatim>\<open>-_.~\<close>, \<^verbatim>\<open>+\<close> and \<^verbatim>\<open>%\<close> only, so it holds no space, no semicolon and no byte
  outside ASCII, and unescaping it gives the description back.
\<close>

theorem snapshot_header_escaped:
  "snd (storage_CreateBucketSnapshot sdk sc tr description bucket opts) =
     tr @ [S3_CreateBucket bucket
             ((effective sc opts)\<lparr>APIOptions := APIOptions (effective sc opts)
                @ [(''X-Tigris-Snapshot'', ''true; name='' @ QueryEscape description)]\<rparr>)]
   \<and> (name \<noteq> '''' \<longrightarrow>
        snd (CreateBucketSnapshot sdk c tr now name description bopts) =
          tr @ [S3_CreateBucket (Some name)
                  ((effective (cli c) (BucketOptions.S3Options (apply_options BucketOptions_defaults bopts)))
                     \<lparr>APIOptions :=
                        APIOptions (effective (cli c)
                          (BucketOptions.S3Options (apply_options BucketOptions_defaults bopts)))
                        @ [(''X-Tigris-Snapshot'', ''true; name='' @ QueryEscape description)]\<rparr>)])
   \<and> (\<forall>ch \<in> set (QueryEscape description).
         (\<not> shouldEscape ch \<or> ch = CHR ''+'' \<or> ch = CHR ''%'')
         \<and> ch \<noteq> CHR '' '' \<and> ch \<noteq> CHR '';'' \<and> (of_char ch :: nat) < 128)
   \<and> QueryUnescape (QueryEscape description) = Some description"
proof (intro conjI impI ballI)
  show sent: "snd (storage_CreateBucketSnapshot sdk sc tr description bucket opts) =
     tr @ [S3_CreateBucket bucket
             ((effective sc opts)\<lparr>APIOptions := APIOptions (effective sc opts)
                @ [(''X-Tigris-Snapshot'', ''true; name='' @ QueryEscape description)]\<rparr>)]"
    for sc opts bucket
    by (simp add: storage_CreateBucketSnapshot_def s3_invoke_def effective_def WithTakeSnapshot_def
        APIOptions_apply_options_WithHeader Let_def)
  assume "name \<noteq> ''''"
  then have "snd (CreateBucketSnapshot sdk c tr now name description bopts) =
      snd (storage_CreateBucketSnapshot sdk (cli c) tr description (Some name)
             (BucketOptions.S3Options (apply_options BucketOptions_defaults bopts)))"
    by (simp add: CreateBucketSnapshot_def Let_def split: prod.splits sum.splits)
  then show "snd (CreateBucketSnapshot sdk c tr now name description bopts) =
          tr @ [S3_CreateBucket (Some name)
                  ((effective (cli c) (BucketOptions.S3Options (apply_options BucketOptions_defaults bopts)))
                     \<lparr>APIOptions :=
                        APIOptions (effective (cli c)
                          (BucketOptions.S3Options (apply_options BucketOptions_defaults bopts)))
                        @ [(''X-Tigris-Snapshot'', ''true; name='' @ QueryEscape description)]\<rparr>)]"
    by (simp only: sent)
next
  fix ch assume ch: "ch \<in> set (QueryEscape description)"
  from QueryEscape_chars [OF ch] show "\<not> shouldEscape ch \<or> ch = CHR ''+'' \<or> ch = CHR ''%''" .
  from QueryEscape_chars [OF ch] unreserved_not_special [of ch]
  show "ch \<noteq> CHR '' ''" and "ch \<noteq> CHR '';''" and "(of_char ch :: nat) < 128"
    by auto
next
  show "QueryUnescape (QueryEscape description) = Some description"
    by (rule QueryUnescape_QueryEscape)
qed

text \<open>
  The theorem at a description with a space, a semicolon and a byte outside ASCII.
\<close>

lemma QueryEscape_example: "QueryEscape [CHR ''a'', CHR '' '', CHR ''b'', CHR '';'', CHR 0xE5] = ''a+b%3B%E5''"
  by (simp add: QueryEscape_def escape_byte_def shouldEscape_def upperhex_def)

theorem snapshot_header_escaped_witness:
  "snd (storage_CreateBucketSnapshot example_sdk \<lparr>Client = example_s3_Options\<rparr> []
          [CHR ''a'', CHR '' '', CHR ''b'', CHR '';'', CHR 0xE5] (Some ''b'') []) =
     [S3_CreateBucket (Some ''b'')
        (example_s3_Options\<lparr>APIOptions := [(''X-Tigris-Snapshot'', ''true; name=a+b%3B%E5'')]\<rparr>)]
   \<and> snd (CreateBucketSnapshot example_sdk example_client [] 0 ''b''
          [CHR ''a'', CHR '' '', CHR ''b'', CHR '';'', CHR 0xE5] []) =
     [S3_CreateBucket (Some ''b'')
        (example_s3_Options\<lparr>APIOptions := [(''X-Tigris-Snapshot'', ''true; name=a+b%3B%E5'')]\<rparr>)]
   \<and> QueryUnescape ''a+b%3B%E5'' = Some [CHR ''a'', CHR '' '', CHR ''b'', CHR '';'', CHR 0xE5]"
proof -
  note inst = snapshot_header_escaped
    [of example_sdk "\<lparr>Client = example_s3_Options\<rparr>" "[]"
        "[CHR ''a'', CHR '' '', CHR ''b'', CHR '';'', CHR 0xE5]" "Some ''b''" "[]" "''b''" example_client 0 "[]"]
  have name: "''b'' \<noteq> ''''"
    by simp
  have direct: "snd (storage_CreateBucketSnapshot example_sdk \<lparr>Client = example_s3_Options\<rparr> []
          [CHR ''a'', CHR '' '', CHR ''b'', CHR '';'', CHR 0xE5] (Some ''b'') []) =
     [S3_CreateBucket (Some ''b'')
        (example_s3_Options\<lparr>APIOptions := [(''X-Tigris-Snapshot'', ''true; name=a+b%3B%E5'')]\<rparr>)]"
    using inst [THEN conjunct1]
    by (simp add: QueryEscape_example effective_def example_s3_Options_def)
  have facade: "snd (CreateBucketSnapshot example_sdk example_client [] 0 ''b''
          [CHR ''a'', CHR '' '', CHR ''b'', CHR '';'', CHR 0xE5] []) =
     [S3_CreateBucket (Some ''b'')
        (example_s3_Options\<lparr>APIOptions := [(''X-Tigris-Snapshot'', ''true; name=a+b%3B%E5'')]\<rparr>)]"
    using inst [THEN conjunct2, THEN conjunct1, THEN mp, OF name]
    by (simp add: QueryEscape_example effective_def example_s3_Options_def example_client_def
        BucketOptions_defaults_def)
  have decoded: "QueryUnescape ''a+b%3B%E5'' = Some [CHR ''a'', CHR '' '', CHR ''b'', CHR '';'', CHR 0xE5]"
    using inst [THEN conjunct2, THEN conjunct2, THEN conjunct2]
    by (simp only: QueryEscape_example)
  show ?thesis
    by (intro conjI) (rule direct facade decoded)+
qed


section \<open>The sentinel errors\<close>

lemma storage_New_error:
  "storage_New env sdk tr doers = (Fail err, tr') \<Longrightarrow> \<not> errors_Is err target"
  by (auto simp: storage_New_def Let_def split: sum.splits)

lemma New_error:
  assumes failed: "fst (New env sdk tr doers) = Fail err" and matched: "errors_Is err target"
  shows "target = ErrNoBucketName"
proof -
  obtain tr' where run: "New env sdk tr doers = (Fail err, tr')"
    using failed by (cases "New env sdk tr doers") simp
  show ?thesis
  proof (cases "Options.BucketName (apply_options (Options_defaults env) doers) = ''''")
    case True
    with run have "err = Errorf_w ''simplestorage: can't create client: '' (Join [Sentinel ErrNoBucketName])"
      by (simp add: New_def Let_def)
    with matched show ?thesis by simp
  next
    case False
    with run matched show ?thesis
      by (auto simp: New_def Let_def split: prod.splits outcome.splits if_splits
          dest: storage_New_error)
  qed
qed

lemma Get_error: "fst (Get sdk c tr key opts) = Fail err \<Longrightarrow> \<not> errors_Is err target"
  by (auto simp: Get_def Let_def s3_invoke_def split: sum.splits)

lemma Head_error: "fst (Head sdk c tr key opts) = Fail err \<Longrightarrow> \<not> errors_Is err target"
  by (auto simp: Head_def Let_def s3_invoke_def split: sum.splits)

lemma Put_error: "fst (Put sdk c tr obj opts) = Fail err \<Longrightarrow> \<not> errors_Is err target"
  by (auto simp: Put_def Let_def s3_invoke_def split: sum.splits option.splits)

lemma Delete_error: "fst (Delete sdk c tr key opts) = Fail err \<Longrightarrow> \<not> errors_Is err target"
  by (auto simp: Delete_def Let_def s3_invoke_def split: sum.splits)

lemma List_error: "fst (List sdk c tr opts) = Fail err \<Longrightarrow> \<not> errors_Is err target"
  by (auto simp: List_def Let_def s3_invoke_def split: sum.splits)

lemma PresignURL_error:
  "fst (PresignURL sdk c tr method key expiry opts) = Fail err \<Longrightarrow> \<not> errors_Is err target"
  by (auto simp: PresignURL_def presignURLGet_def presignURLPut_def presignURLDelete_def Let_def
      s3_invoke_def split: sum.splits if_splits)

lemma CreateBucket_error:
  "fst (CreateBucket sdk c tr now bucket bopts) = Fail err \<Longrightarrow> \<not> errors_Is err target"
  by (auto simp: CreateBucket_def CreateSnapshotEnabledBucket_def Let_def s3_invoke_def
      split: sum.splits if_splits)

lemma delete_each_error:
  "delete_each sdk c tr bucket o' objs = (Fail err, tr') \<Longrightarrow> \<not> errors_Is err target"
proof (induction objs arbitrary: tr)
  case Nil
  then show ?case by simp
next
  case (Cons obj rest)
  then show ?case
    by (auto simp: s3_invoke_def split: sum.splits option.splits)
qed

lemma emptyBucket_error:
  "emptyBucket sdk c tr bucket o' = (Fail err, tr') \<Longrightarrow> \<not> errors_Is err target"
  by (auto simp: emptyBucket_def s3_invoke_def dest: delete_each_error split: sum.splits)

lemma delete_bucket_call_error:
  "delete_bucket_call sdk c tr bucket o' = (Fail err, tr') \<Longrightarrow> \<not> errors_Is err target"
  by (auto simp: delete_bucket_call_def s3_invoke_def split: sum.splits)

lemma DeleteBucket_error:
  "fst (DeleteBucket sdk c tr bucket bopts) = Fail err \<Longrightarrow> \<not> errors_Is err target"
proof -
  assume failed: "fst (DeleteBucket sdk c tr bucket bopts) = Fail err"
  obtain r tr' where run: "DeleteBucket sdk c tr bucket bopts = (r, tr')"
    by (cases "DeleteBucket sdk c tr bucket bopts")
  with failed have r: "r = Fail err" by simp
  from run [unfolded r DeleteBucket_def Let_def] show ?thesis
    by (auto split: if_splits prod.splits outcome.splits
        dest: emptyBucket_error delete_bucket_call_error)
qed

lemma ListBuckets_error:
  "fst (ListBuckets sdk c tr bopts) = Fail err \<Longrightarrow> \<not> errors_Is err target"
  by (auto simp: ListBuckets_def Let_def s3_invoke_def split: sum.splits option.splits)

lemma GetBucketInfo_error:
  "fst (GetBucketInfo sdk c tr bucket bopts) = Fail err \<Longrightarrow> \<not> errors_Is err target"
  by (auto simp: GetBucketInfo_def Let_def split: prod.splits sum.splits if_splits)

lemma CreateBucketSnapshot_error:
  "fst (CreateBucketSnapshot sdk c tr now bucket description bopts) = Fail err \<Longrightarrow> \<not> errors_Is err target"
  by (auto simp: CreateBucketSnapshot_def storage_CreateBucketSnapshot_def Let_def s3_invoke_def
      split: sum.splits if_splits)

lemma ListBucketSnapshots_error:
  "fst (ListBucketSnapshots sdk c tr bucket bopts) = Fail err \<Longrightarrow> \<not> errors_Is err target"
  by (auto simp: ListBucketSnapshots_def Let_def s3_invoke_def split: sum.splits if_splits)

lemma ForkBucket_error:
  "fst (ForkBucket sdk c tr now source target' bopts) = Fail err \<Longrightarrow> \<not> errors_Is err target"
  by (auto simp: ForkBucket_def Let_def s3_invoke_def split: sum.splits if_splits)

text \<open>
  Claim C8 says that each of the four sentinels is returned by some operation under some
  input and backend behaviour. The code does so for \<^verbatim>\<open>ErrNoBucketName\<close> only (claim C5). For
  the other three, \<^verbatim>\<open>ErrBucketNotFound\<close>, \<^verbatim>\<open>ErrBucketNotEmpty\<close> and \<^verbatim>\<open>ErrSnapshotRequired\<close>,
  the theorem states what the code does: whatever the inputs and the backend, no error
  returned by the constructor or by any of the thirteen operations of the simplified client
  matches one of them. Their doc comments say they are returned.
\<close>

theorem unused_sentinels_never_returned:
  "target \<noteq> ErrNoBucketName \<longrightarrow>
     (fst (New env sdk tr doers) = Fail err \<longrightarrow> \<not> errors_Is err target)
   \<and> (fst (Get sdk c tr key opts) = Fail err \<longrightarrow> \<not> errors_Is err target)
   \<and> (fst (Head sdk c tr key opts) = Fail err \<longrightarrow> \<not> errors_Is err target)
   \<and> (fst (Put sdk c tr obj opts) = Fail err \<longrightarrow> \<not> errors_Is err target)
   \<and> (fst (Delete sdk c tr key opts) = Fail err \<longrightarrow> \<not> errors_Is err target)
   \<and> (fst (List sdk c tr opts) = Fail err \<longrightarrow> \<not> errors_Is err target)
   \<and> (fst (PresignURL sdk c tr method key expiry opts) = Fail err \<longrightarrow> \<not> errors_Is err target)
   \<and> (fst (CreateBucket sdk c tr now bucket bopts) = Fail err \<longrightarrow> \<not> errors_Is err target)
   \<and> (fst (DeleteBucket sdk c tr bucket bopts) = Fail err \<longrightarrow> \<not> errors_Is err target)
   \<and> (fst (ListBuckets sdk c tr bopts) = Fail err \<longrightarrow> \<not> errors_Is err target)
   \<and> (fst (GetBucketInfo sdk c tr bucket bopts) = Fail err \<longrightarrow> \<not> errors_Is err target)
   \<and> (fst (CreateBucketSnapshot sdk c tr now bucket description bopts) = Fail err
        \<longrightarrow> \<not> errors_Is err target)
   \<and> (fst (ListBucketSnapshots sdk c tr bucket bopts) = Fail err \<longrightarrow> \<not> errors_Is err target)
   \<and> (fst (ForkBucket sdk c tr now source bucket bopts) = Fail err \<longrightarrow> \<not> errors_Is err target)"
proof (intro impI conjI)
  assume "target \<noteq> ErrNoBucketName" and "fst (New env sdk tr doers) = Fail err"
  then show "\<not> errors_Is err target"
    using New_error [of env sdk tr doers err target] by blast
qed (erule Get_error Head_error Put_error Delete_error List_error PresignURL_error CreateBucket_error
      DeleteBucket_error ListBuckets_error GetBucketInfo_error CreateBucketSnapshot_error
      ListBucketSnapshots_error ForkBucket_error)+

text \<open>
  The theorem at the input the doc comment of \<^verbatim>\<open>ErrBucketNotEmpty\<close> describes: deleting,
  without the force option, a bucket that still holds an object. The error returned wraps
  the backend's error and does not match the sentinel.
\<close>

lemma DeleteBucket_not_empty_example:
  "fst (DeleteBucket (bucket_sdk 1000 [''k1'']) example_client [] ''b'' []) =
     Fail (Errorf_w (''simplestorage: can't delete bucket '' @ ''b'' @ '': '')
             (FromSDK (SDKError ''BucketNotEmpty'')))"
  by (simp add: DeleteBucket_def delete_bucket_call_def s3_invoke_def bucket_sdk_def
      BucketOptions_defaults_def Let_def)

theorem unused_sentinels_never_returned_witness:
  "fst (DeleteBucket (bucket_sdk 1000 [''k1'']) example_client [] ''b'' []) =
     Fail (Errorf_w (''simplestorage: can't delete bucket '' @ ''b'' @ '': '')
             (FromSDK (SDKError ''BucketNotEmpty'')))
   \<and> \<not> errors_Is (Errorf_w (''simplestorage: can't delete bucket '' @ ''b'' @ '': '')
                     (FromSDK (SDKError ''BucketNotEmpty''))) ErrBucketNotEmpty"
proof -
  have other: "ErrBucketNotEmpty \<noteq> ErrNoBucketName"
    by simp
  note inst = unused_sentinels_never_returned [THEN mp, OF other]
  show ?thesis
    by (intro conjI)
      (rule DeleteBucket_not_empty_example
        inst [THEN conjunct2, THEN conjunct2, THEN conjunct2, THEN conjunct2, THEN conjunct2,
          THEN conjunct2, THEN conjunct2, THEN conjunct2, THEN conjunct1, THEN mp,
          OF DeleteBucket_not_empty_example])+
qed

end
